theory Spec2Isabelle
  imports Complex_Main
begin

section \<open>Numbers\<close>

text \<open>
  The tensors of \<^verbatim>\<open>mlp.py\<close> hold floating-point numbers: finite values, the two
  infinities and \<open>NaN\<close>. A division by zero gives an infinity and an undefined operation
  gives \<open>NaN\<close>, as NumPy and Theano do (neither raises). An operation on finite values
  rounds its exact result to the format of the tensors. The format is Theano's
  \<^verbatim>\<open>floatX\<close>, which \<^verbatim>\<open>mlp.py\<close> does not choose, so the rounding is a parameter of the
  model: \<open>rnd\<close> gives the value stored for an exact result (an infinity when it
  overflows), and \<open>rsqrt\<close> what \<^verbatim>\<open>x ** (-0.5)\<close> returns on a finite \<open>x > 0\<close>. A finite
  zero stands for both signed zeros.
\<close>

datatype fl = Fin real | PInf | NInf | NaN

record arith =
  rnd :: "real \<Rightarrow> fl"
  rsqrt :: "real \<Rightarrow> fl"

text \<open>The format of Theano's default \<^verbatim>\<open>floatX\<close> and of Python's floats: IEEE binary64,
  rounding to the nearest value, a tie to the even significand. A value has 53
  significant bits and a least exponent of \<open>-1022\<close>; what rounds to \<open>2 ^ 1024\<close> or
  beyond is an infinity. In \<open>float64\<close> the power \<open>-0.5\<close> is taken to return the value
  nearest to the exact one.\<close>

definition round_even :: "real \<Rightarrow> int" where
  "round_even r =
     (let f = \<lfloor>r\<rfloor> in
        if r - of_int f < 1 / 2 then f
        else if 1 / 2 < r - of_int f then f + 1
        else if even f then f else f + 1)"

definition binary64 :: "real \<Rightarrow> fl" where
  "binary64 x =
     (if x = 0 then Fin 0
      else let q = max \<lfloor>log 2 \<bar>x\<bar>\<rfloor> (- 1022) - 52;
               y = of_int (round_even (x / 2 powr of_int q)) * 2 powr of_int q
           in if 2 ^ 1024 \<le> \<bar>y\<bar> then (if 0 < y then PInf else NInf) else Fin y)"

definition float64 :: arith where
  "float64 = \<lparr>rnd = binary64, rsqrt = (\<lambda>a. binary64 (1 / sqrt a))\<rparr>"

fun fl_sign :: "fl \<Rightarrow> real" where
  "fl_sign (Fin a) = sgn a"
| "fl_sign PInf = 1"
| "fl_sign NInf = - 1"
| "fl_sign NaN = 0"

definition inf_of_sign :: "real \<Rightarrow> fl" where
  "inf_of_sign s = (if s = 0 then NaN else if 0 < s then PInf else NInf)"

fun fl_neg :: "fl \<Rightarrow> fl" where
  "fl_neg (Fin a) = Fin (- a)"
| "fl_neg PInf = NInf"
| "fl_neg NInf = PInf"
| "fl_neg NaN = NaN"

fun fl_add :: "arith \<Rightarrow> fl \<Rightarrow> fl \<Rightarrow> fl" where
  "fl_add ar (Fin a) (Fin b) = rnd ar (a + b)"
| "fl_add ar NaN y = NaN"
| "fl_add ar x NaN = NaN"
| "fl_add ar PInf NInf = NaN"
| "fl_add ar NInf PInf = NaN"
| "fl_add ar PInf y = PInf"
| "fl_add ar x PInf = PInf"
| "fl_add ar NInf y = NInf"
| "fl_add ar x NInf = NInf"

definition fl_sub :: "arith \<Rightarrow> fl \<Rightarrow> fl \<Rightarrow> fl" where
  "fl_sub ar x y = fl_add ar x (fl_neg y)"

fun fl_mul :: "arith \<Rightarrow> fl \<Rightarrow> fl \<Rightarrow> fl" where
  "fl_mul ar (Fin a) (Fin b) = rnd ar (a * b)"
| "fl_mul ar NaN y = NaN"
| "fl_mul ar x NaN = NaN"
| "fl_mul ar x y = inf_of_sign (fl_sign x * fl_sign y)"

text \<open>Division: a finite value over zero is an infinity of its sign, \<open>0/0\<close> and
  \<open>inf/inf\<close> are \<open>NaN\<close>, a finite value over an infinity is zero.\<close>

fun fl_div :: "arith \<Rightarrow> fl \<Rightarrow> fl \<Rightarrow> fl" where
  "fl_div ar (Fin a) (Fin b) = (if b = 0 then inf_of_sign (sgn a) else rnd ar (a / b))"
| "fl_div ar NaN y = NaN"
| "fl_div ar x NaN = NaN"
| "fl_div ar (Fin a) y = Fin 0"
| "fl_div ar x (Fin b) = inf_of_sign (fl_sign x * (if b < 0 then - 1 else 1))"
| "fl_div ar x y = NaN"

text \<open>\<^verbatim>\<open>x ** (-0.5)\<close>: the C function \<^verbatim>\<open>pow\<close> with a negative, non-integer exponent.\<close>

fun pow_neg_half :: "arith \<Rightarrow> fl \<Rightarrow> fl" where
  "pow_neg_half ar (Fin a) = (if a = 0 then PInf else if a < 0 then NaN else rsqrt ar a)"
| "pow_neg_half ar PInf = Fin 0"
| "pow_neg_half ar NInf = Fin 0"
| "pow_neg_half ar NaN = NaN"

text \<open>\<^verbatim>\<open>x < y\<close>: every comparison with \<open>NaN\<close> is false.\<close>

fun fl_less :: "fl \<Rightarrow> fl \<Rightarrow> bool" where
  "fl_less (Fin a) (Fin b) = (a < b)"
| "fl_less NaN y = False"
| "fl_less x NaN = False"
| "fl_less x NInf = False"
| "fl_less PInf y = False"
| "fl_less NInf y = True"
| "fl_less x PInf = True"

fun fl_sum :: "arith \<Rightarrow> fl list \<Rightarrow> fl" where
  "fl_sum ar [] = Fin 0"
| "fl_sum ar (x # xs) = fl_add ar x (fl_sum ar xs)"

text \<open>An integer (a shape, a count) that enters a floating-point operation.\<close>

definition fl_of_int :: "arith \<Rightarrow> int \<Rightarrow> fl" where
  "fl_of_int ar k = rnd ar (of_int k)"

section \<open>Tensors\<close>

text \<open>A vector and a matrix carry their shape; entries are read inside the shape only.\<close>

record vec =
  dim :: nat
  vel :: "nat \<Rightarrow> fl"

record mat =
  nrows :: nat
  ncols :: nat
  el :: "nat \<Rightarrow> nat \<Rightarrow> fl"

text \<open>\<^verbatim>\<open>M.sum(0)\<close> and \<^verbatim>\<open>M.mean(0)\<close>: one value per column, over the rows.\<close>

definition sum0 :: "arith \<Rightarrow> mat \<Rightarrow> vec" where
  "sum0 ar M = \<lparr>dim = ncols M, vel = (\<lambda>j. fl_sum ar (map (\<lambda>i. el M i j) [0..<nrows M]))\<rparr>"

definition mean0 :: "arith \<Rightarrow> mat \<Rightarrow> vec" where
  "mean0 ar M = \<lparr>dim = ncols M,
     vel = (\<lambda>j. fl_div ar (vel (sum0 ar M) j) (fl_of_int ar (int (nrows M))))\<rparr>"

text \<open>\<^verbatim>\<open>M - v\<close>, \<^verbatim>\<open>v * M\<close> and \<^verbatim>\<open>M * v\<close>: the vector is broadcast over the rows.\<close>

definition sub_rows :: "arith \<Rightarrow> mat \<Rightarrow> vec \<Rightarrow> mat" where
  "sub_rows ar M v = M\<lparr>el := (\<lambda>i j. fl_sub ar (el M i j) (vel v j))\<rparr>"

definition vec_times_mat :: "arith \<Rightarrow> vec \<Rightarrow> mat \<Rightarrow> mat" where
  "vec_times_mat ar v M = M\<lparr>el := (\<lambda>i j. fl_mul ar (vel v j) (el M i j))\<rparr>"

definition mat_times_vec :: "arith \<Rightarrow> mat \<Rightarrow> vec \<Rightarrow> mat" where
  "mat_times_vec ar M v = M\<lparr>el := (\<lambda>i j. fl_mul ar (el M i j) (vel v j))\<rparr>"

definition transpose_mat :: "mat \<Rightarrow> mat" where
  "transpose_mat M = \<lparr>nrows = ncols M, ncols = nrows M, el = (\<lambda>i j. el M j i)\<rparr>"

definition dot :: "arith \<Rightarrow> mat \<Rightarrow> mat \<Rightarrow> mat" where
  "dot ar A B = \<lparr>nrows = nrows A, ncols = ncols B,
     el = (\<lambda>i k. fl_sum ar (map (\<lambda>l. fl_mul ar (el A i l) (el B l k)) [0..<ncols A]))\<rparr>"

definition scalar_times_mat :: "arith \<Rightarrow> fl \<Rightarrow> mat \<Rightarrow> mat" where
  "scalar_times_mat ar c M = M\<lparr>el := (\<lambda>i j. fl_mul ar c (el M i j))\<rparr>"

definition scalar_times_vec :: "arith \<Rightarrow> fl \<Rightarrow> vec \<Rightarrow> vec" where
  "scalar_times_vec ar c v = v\<lparr>vel := (\<lambda>j. fl_mul ar c (vel v j))\<rparr>"

text \<open>\<^verbatim>\<open>A - B\<close> on two matrices of one shape, elementwise.\<close>

definition mat_sub :: "arith \<Rightarrow> mat \<Rightarrow> mat \<Rightarrow> mat" where
  "mat_sub ar A B = A\<lparr>el := (\<lambda>i j. fl_sub ar (el A i j) (el B i j))\<rparr>"

text \<open>\<^verbatim>\<open>M ** 2\<close>, elementwise.\<close>

definition sqr_mat :: "arith \<Rightarrow> mat \<Rightarrow> mat" where
  "sqr_mat ar M = M\<lparr>el := (\<lambda>i j. fl_mul ar (el M i j) (el M i j))\<rparr>"

definition pow_neg_half_vec :: "arith \<Rightarrow> vec \<Rightarrow> vec" where
  "pow_neg_half_vec ar v = v\<lparr>vel := (\<lambda>j. pow_neg_half ar (vel v j))\<rparr>"

definition sum_vec :: "arith \<Rightarrow> vec \<Rightarrow> fl" where
  "sum_vec ar v = fl_sum ar (map (vel v) [0..<dim v])"

definition sum_all :: "arith \<Rightarrow> mat \<Rightarrow> fl" where
  "sum_all ar M =
     fl_sum ar (map (\<lambda>i. fl_sum ar (map (el M i) [0..<ncols M])) [0..<nrows M])"

definition diagonal :: "mat \<Rightarrow> vec" where
  "diagonal M = \<lparr>dim = min (nrows M) (ncols M), vel = (\<lambda>j. el M j j)\<rparr>"

section \<open>The class MLP\<close>

text \<open>
  An attribute of the class is a symbolic Theano expression: a function of the
  environment \<open>'e\<close> in which the graph is evaluated (the shared parameters and the
  minibatch). The attributes that only \<^verbatim>\<open>set_covariance\<close> and \<^verbatim>\<open>set_correlation\<close> assign
  are \<open>None\<close> until assigned. The two methods take the arithmetic in which the graph
  they build is evaluated.
\<close>

record 'e MLP =
  hiddenLayer_output :: "'e \<Rightarrow> mat"
  L1 :: "'e \<Rightarrow> fl"
  L2_sqr :: "'e \<Rightarrow> fl"
  negative_log_likelihood :: "'e \<Rightarrow> fl"
  errors :: "'e \<Rightarrow> fl"
  minibatch_size :: "('e \<Rightarrow> int) option"
  mean_activation :: "('e \<Rightarrow> vec) option"
  centered_activation :: "('e \<Rightarrow> mat) option"
  activation_covariance :: "('e \<Rightarrow> mat) option"
  covariance_squared :: "('e \<Rightarrow> mat) option"
  off_diag_cov_sqr :: "('e \<Rightarrow> fl) option"
  inv_std_vec :: "('e \<Rightarrow> vec) option"
  activation_correlation :: "('e \<Rightarrow> mat) option"
  correlation_squared :: "('e \<Rightarrow> mat) option"
  off_diag_cor_sqr :: "('e \<Rightarrow> fl) option"

definition set_covariance :: "arith \<Rightarrow> 'e MLP \<Rightarrow> 'e MLP" where
  "set_covariance ar self =
    (let out = hiddenLayer_output self;
         size = (\<lambda>e. int (nrows (out e)));
         mean = (\<lambda>e. mean0 ar (out e));
         centered = (\<lambda>e. sub_rows ar (out e) (mean e));
         cov = (\<lambda>e. scalar_times_mat ar (fl_div ar (Fin 1) (fl_of_int ar (size e - 1)))
                  (dot ar (transpose_mat (centered e)) (centered e)));
         cov2 = (\<lambda>e. sqr_mat ar (cov e));
         off = (\<lambda>e. fl_sub ar (sum_all ar (cov2 e)) (sum_vec ar (diagonal (cov2 e))))
     in self\<lparr>minibatch_size := Some size,
             mean_activation := Some mean,
             centered_activation := Some centered,
             activation_covariance := Some cov,
             covariance_squared := Some cov2,
             off_diag_cov_sqr := Some off\<rparr>)"

definition set_correlation :: "arith \<Rightarrow> 'e MLP \<Rightarrow> 'e MLP" where
  "set_correlation ar self =
    (let out = hiddenLayer_output self;
         size = (\<lambda>e. int (nrows (out e)));
         mean = (\<lambda>e. mean0 ar (out e));
         centered = (\<lambda>e. sub_rows ar (out e) (mean e));
         cov = (\<lambda>e. scalar_times_mat ar (fl_div ar (Fin 1) (fl_of_int ar (size e - 1)))
                  (dot ar (transpose_mat (centered e)) (centered e)));
         inv_std = (\<lambda>e. pow_neg_half_vec ar
                  (scalar_times_vec ar (fl_div ar (Fin 1) (fl_of_int ar (size e - 1)))
                     (sum0 ar (sqr_mat ar (centered e)))));
         cor = (\<lambda>e. mat_times_vec ar
                  (transpose_mat (vec_times_mat ar (inv_std e) (cov e))) (inv_std e));
         cor2 = (\<lambda>e. sqr_mat ar (cor e));
         off = (\<lambda>e. fl_sub ar (sum_all ar (cor2 e)) (sum_vec ar (diagonal (cor2 e))))
     in self\<lparr>minibatch_size := Some size,
             mean_activation := Some mean,
             centered_activation := Some centered,
             activation_covariance := Some cov,
             inv_std_vec := Some inv_std,
             activation_correlation := Some cor,
             correlation_squared := Some cor2,
             off_diag_cor_sqr := Some off\<rparr>)"

text \<open>\<^verbatim>\<open>__init__\<close>: the expressions of the two layers (built by the classes
  \<^verbatim>\<open>HiddenLayer\<close> and \<^verbatim>\<open>LogisticRegression\<close>, which are not part of this file) are stored;
  no penalty attribute exists yet.\<close>

definition MLP_init ::
  "('e \<Rightarrow> mat) \<Rightarrow> ('e \<Rightarrow> fl) \<Rightarrow> ('e \<Rightarrow> fl) \<Rightarrow> ('e \<Rightarrow> fl) \<Rightarrow> ('e \<Rightarrow> fl) \<Rightarrow> 'e MLP" where
  "MLP_init out l1 l2 nll err =
     \<lparr>hiddenLayer_output = out, L1 = l1, L2_sqr = l2,
      negative_log_likelihood = nll, errors = err,
      minibatch_size = None, mean_activation = None, centered_activation = None,
      activation_covariance = None, covariance_squared = None, off_diag_cov_sqr = None,
      inv_std_vec = None, activation_correlation = None, correlation_squared = None,
      off_diag_cor_sqr = None\<rparr>"

section \<open>The training script\<close>

text \<open>
  \<^verbatim>\<open>test_mlp\<close> stops in one of two ways before training: \<^verbatim>\<open>sys.exit(1)\<close>, or an
  exception that nothing catches. The Python interpreter ends with the status given to
  \<^verbatim>\<open>sys.exit\<close>, and with status 1 on an uncaught exception.
\<close>

datatype error = SystemExit int | ZeroDivisionError | AttributeError

fun exit_status :: "error \<Rightarrow> int" where
  "exit_status (SystemExit k) = k"
| "exit_status ZeroDivisionError = 1"
| "exit_status AttributeError = 1"

record config =
  learning_rate :: fl
  L1_reg :: fl
  L2_reg :: fl
  cov_reg :: fl
  cor_reg :: fl
  rand_seed :: int
  n_epochs :: int
  dataset :: string
  batch_size :: int
  n_hidden :: int
  save_pairwise_activations :: bool

text \<open>
  What the script does in the order it does it: the calls into its collaborators and
  the lines it prints.
\<close>

datatype event =
    LoadData
  | Print string
  | SeedRng int
  | BuildMLP
  | SetCovariance
  | SetCorrelation
  | Compile string
  | ReadTimer
  | DrawPermutation int "nat list"
  | TrainStep int int
  | ValidateStep int int
  | PrintEpoch int int fl
  | PrintSummary fl int int
  | PrintDuration real

text \<open>
  The collaborators, which are not part of \<^verbatim>\<open>mlp.py\<close>, are parameters of the model:
  the arithmetic of the tensors, \<^verbatim>\<open>load_data\<close> (its training and validation sets), the
  number of rows of a data set, NumPy's \<^verbatim>\<open>RandomState\<close> and its \<^verbatim>\<open>permutation\<close>, the
  constructors of the two layers (they draw the initial weights from the generator and
  allocate the shared parameters, the list \<^verbatim>\<open>classifier.params\<close>), the expressions the
  layers define, and Theano's \<^verbatim>\<open>T.grad\<close>: \<open>grad cost k\<close> is the gradient of the cost with
  respect to the \<open>k\<close>-th parameter. A parameter is a matrix, a bias vector a matrix
  of one row. A graph is evaluated on the shared parameters and a minibatch; a
  minibatch is a data set with the vector of the indices of its rows. Compiled Theano
  functions are taken to return.
\<close>

type_synonym 'ds env = "mat list \<times> 'ds \<times> nat list"

record ('ds, 'rng) externals =
  floatX :: arith
  load_data :: "string \<Rightarrow> 'ds \<times> 'ds"
  shape0 :: "'ds \<Rightarrow> nat"
  RandomState :: "int \<Rightarrow> 'rng"
  permutation :: "'rng \<Rightarrow> nat \<Rightarrow> nat list \<times> 'rng"
  layers :: "'rng \<Rightarrow> int \<Rightarrow> int \<Rightarrow> int \<Rightarrow> mat list \<times> 'rng"
  layer_output :: "'ds env \<Rightarrow> mat"
  layer_L1 :: "'ds env \<Rightarrow> fl"
  layer_L2_sqr :: "'ds env \<Rightarrow> fl"
  layer_nll :: "'ds env \<Rightarrow> fl"
  layer_errors :: "'ds env \<Rightarrow> fl"
  grad :: "('ds env \<Rightarrow> fl) \<Rightarrow> nat \<Rightarrow> 'ds env \<Rightarrow> mat"

text \<open>Python 2: \<^verbatim>\<open>/\<close> on two integers is floor division and raises on a zero divisor;
  \<^verbatim>\<open>xrange(n)\<close> is empty for \<open>n \<le> 0\<close>; a slice clamps its bounds to the sequence, a
  negative bound counting from the end.\<close>

definition py_div :: "int \<Rightarrow> int \<Rightarrow> error + int" where
  "py_div a b = (if b = 0 then Inl ZeroDivisionError else Inr (a div b))"

definition xrange :: "int \<Rightarrow> int list" where
  "xrange n = map int [0..<nat n]"

definition py_slice :: "'a list \<Rightarrow> int \<Rightarrow> int \<Rightarrow> 'a list" where
  "py_slice xs lo hi =
     (let n = int (length xs);
          clamp = (\<lambda>i. if i < 0 then max 0 (i + n) else min i n);
          a = clamp lo;
          b = clamp hi
      in take (nat (b - a)) (drop (nat a) xs))"

text \<open>\<^verbatim>\<open>np.mean\<close> of a list: the mean of no value is \<open>NaN\<close>.\<close>

definition np_mean :: "arith \<Rightarrow> fl list \<Rightarrow> fl" where
  "np_mean ar xs = fl_div ar (fl_sum ar xs) (fl_of_int ar (int (length xs)))"

text \<open>The cost (lines 228 to 252): the branch taken, the classifier after it and the
  cost expression, or the exit.\<close>

definition base_cost :: "arith \<Rightarrow> config \<Rightarrow> 'e MLP \<Rightarrow> 'e \<Rightarrow> fl" where
  "base_cost ar cfg classifier e =
     fl_add ar (fl_add ar (negative_log_likelihood classifier e)
                          (fl_mul ar (L1_reg cfg) (L1 classifier e)))
               (fl_mul ar (L2_reg cfg) (L2_sqr classifier e))"

definition select_cost ::
  "arith \<Rightarrow> config \<Rightarrow> 'e MLP \<Rightarrow> event list \<times> (error + 'e MLP \<times> ('e \<Rightarrow> fl))" where
  "select_cost ar cfg classifier =
     (if cov_reg cfg = Fin 0 \<and> cor_reg cfg = Fin 0 then
        ([], Inr (classifier, base_cost ar cfg classifier))
      else if cov_reg cfg \<noteq> Fin 0 \<and> cor_reg cfg = Fin 0 then
        (let c = set_covariance ar classifier in
           case off_diag_cov_sqr c of
             None \<Rightarrow> ([SetCovariance], Inl AttributeError)
           | Some p \<Rightarrow> ([SetCovariance],
               Inr (c, \<lambda>e. fl_add ar (base_cost ar cfg c e) (fl_mul ar (cov_reg cfg) (p e)))))
      else if cov_reg cfg = Fin 0 \<and> cor_reg cfg \<noteq> Fin 0 then
        (let c = set_correlation ar classifier in
           case off_diag_cor_sqr c of
             None \<Rightarrow> ([SetCorrelation], Inl AttributeError)
           | Some p \<Rightarrow> ([SetCorrelation],
               Inr (c, \<lambda>e. fl_add ar (base_cost ar cfg c e) (fl_mul ar (cor_reg cfg) (p e)))))
      else
        ([Print ''Cannot use covariance and correlation penalties simulataneously. Terminating program...''],
         Inl (SystemExit 1)))"

text \<open>The \<^verbatim>\<open>givens\<close> of the two compiled functions: the rows of minibatch \<open>index\<close>.\<close>

definition valid_givens :: "'ds \<Rightarrow> nat \<Rightarrow> int \<Rightarrow> int \<Rightarrow> 'ds \<times> nat list" where
  "valid_givens valid_set n_valid bs index =
     (valid_set, py_slice [0..<n_valid] (index * bs) ((index + 1) * bs))"

definition train_givens :: "'ds \<Rightarrow> int \<Rightarrow> int \<Rightarrow> nat list \<Rightarrow> 'ds \<times> nat list" where
  "train_givens train_set bs index perm =
     (train_set, py_slice perm (index * bs) ((index + 1) * bs))"

text \<open>Lines 290 to 302: the gradients of the cost with respect to the parameters, in
  the order of \<^verbatim>\<open>classifier.params\<close>, and the new value
  \<^verbatim>\<open>param - learning_rate * gparam\<close> of every parameter. \<open>sgd_step\<close> is the update that
  \<^verbatim>\<open>train_model\<close> performs, evaluated on the parameters and the minibatch of an
  environment.\<close>

definition gparams ::
  "(('ds env \<Rightarrow> fl) \<Rightarrow> nat \<Rightarrow> 'ds env \<Rightarrow> mat) \<Rightarrow> ('ds env \<Rightarrow> fl) \<Rightarrow> 'ds env \<Rightarrow> mat list" where
  "gparams T_grad cost e = map (\<lambda>k. T_grad cost k e) [0..<length (fst e)]"

definition param_updates :: "arith \<Rightarrow> fl \<Rightarrow> mat list \<Rightarrow> mat list \<Rightarrow> mat list" where
  "param_updates ar lr ps gs =
     map (\<lambda>(param, gparam). mat_sub ar param (scalar_times_mat ar lr gparam)) (zip ps gs)"

definition sgd_step ::
  "arith \<Rightarrow> fl \<Rightarrow> (('ds env \<Rightarrow> fl) \<Rightarrow> nat \<Rightarrow> 'ds env \<Rightarrow> mat) \<Rightarrow> ('ds env \<Rightarrow> fl)
     \<Rightarrow> 'ds env \<Rightarrow> mat list" where
  "sgd_step ar lr T_grad cost e = param_updates ar lr (fst e) (gparams T_grad cost e)"

text \<open>What the loop refers to: the two compiled functions and the numbers computed
  before it.\<close>

record ('par, 'rng) loop =
  arithmetic :: arith
  max_epochs :: int
  n_train :: nat
  n_train_batches :: int
  n_valid_batches :: int
  rng_permutation :: "'rng \<Rightarrow> nat \<Rightarrow> nat list \<times> 'rng"
  train_model :: "int \<Rightarrow> nat list \<Rightarrow> 'par \<Rightarrow> 'par"
  validate_model :: "int \<Rightarrow> 'par \<Rightarrow> fl"

record ('par, 'rng) state =
  params :: 'par
  rng :: 'rng
  best_validation_loss :: fl
  best_epoch :: int
  epoch :: int
  trace :: "event list"
  trajectory :: "'par list"

text \<open>The inner \<^verbatim>\<open>for\<close> loop: the parameters after each minibatch, in order.\<close>

fun run_minibatches :: "(int \<Rightarrow> 'par \<Rightarrow> 'par) \<Rightarrow> int list \<Rightarrow> 'par \<Rightarrow> 'par list" where
  "run_minibatches step [] p = []"
| "run_minibatches step (i # rest) p = step i p # run_minibatches step rest (step i p)"

definition this_validation_loss :: "('par, 'rng) loop \<Rightarrow> 'par \<Rightarrow> fl" where
  "this_validation_loss L p =
     np_mean (arithmetic L) (map (\<lambda>i. validate_model L i p) (xrange (n_valid_batches L)))"

definition epoch_body :: "('par, 'rng) loop \<Rightarrow> ('par, 'rng) state \<Rightarrow> ('par, 'rng) state" where
  "epoch_body L s =
     (let e = epoch s + 1;
          index_perm = fst (rng_permutation L (rng s) (n_train L));
          steps = run_minibatches (\<lambda>i. train_model L i index_perm)
                    (xrange (n_train_batches L)) (params s);
          p = last (params s # steps);
          loss = this_validation_loss L p;
          better = fl_less loss (best_validation_loss s)
      in \<lparr>params = p,
          rng = snd (rng_permutation L (rng s) (n_train L)),
          best_validation_loss = (if better then loss else best_validation_loss s),
          best_epoch = (if better then e else best_epoch s),
          epoch = e,
          trace = trace s @ [DrawPermutation e index_perm]
                    @ map (TrainStep e) (xrange (n_train_batches L))
                    @ map (ValidateStep e) (xrange (n_valid_batches L))
                    @ [PrintEpoch e (e * n_train_batches L)
                         (fl_mul (arithmetic L) loss (Fin 100))],
          trajectory = trajectory s @ steps\<rparr>)"

function while_epochs :: "('par, 'rng) loop \<Rightarrow> ('par, 'rng) state \<Rightarrow> ('par, 'rng) state" where
  "while_epochs L s = (if epoch s < max_epochs L then while_epochs L (epoch_body L s) else s)"
  by pat_completeness auto
termination
  by (relation "measure (\<lambda>(L, s). nat (max_epochs L - epoch s))")
     (auto simp: epoch_body_def Let_def)

declare while_epochs.simps [simp del]

text \<open>The two compiled functions with the numbers the loop refers to, and the state
  in which the loop starts.\<close>

definition compile_loop ::
  "('ds, 'rng) externals \<Rightarrow> config \<Rightarrow> 'ds \<Rightarrow> 'ds \<Rightarrow> int \<Rightarrow> int
     \<Rightarrow> 'ds env MLP \<Rightarrow> ('ds env \<Rightarrow> fl) \<Rightarrow> (mat list, 'rng) loop" where
  "compile_loop ext cfg train_set valid_set ntb nvb classifier cost =
     \<lparr>arithmetic = floatX ext,
      max_epochs = n_epochs cfg,
      n_train = shape0 ext train_set,
      n_train_batches = ntb,
      n_valid_batches = nvb,
      rng_permutation = permutation ext,
      train_model = (\<lambda>index perm p. sgd_step (floatX ext) (learning_rate cfg) (grad ext) cost
         (p, train_givens train_set (batch_size cfg) index perm)),
      validate_model = (\<lambda>index p. errors classifier
         (p, valid_givens valid_set (shape0 ext valid_set) (batch_size cfg) index))\<rparr>"

definition initial_state :: "'par \<times> 'rng \<Rightarrow> event list \<Rightarrow> ('par, 'rng) state" where
  "initial_state built t =
     \<lparr>params = fst built, rng = snd built,
      best_validation_loss = PInf, best_epoch = 0, epoch = 0,
      trace = t @ [Compile ''validate_model'', Compile ''train_model'',
                   Print ''... training'', ReadTimer],
      trajectory = []\<rparr>"

text \<open>\<^verbatim>\<open>test_mlp\<close>: everything it did, in order, with the error that ended it or the
  state in which the loop ended. \<open>timer k\<close> is what the \<open>k\<close>-th reading of the clock
  returns.\<close>

definition test_mlp ::
  "('ds, 'rng) externals \<Rightarrow> (nat \<Rightarrow> real) \<Rightarrow> config
     \<Rightarrow> event list \<times> (error + (mat list, 'rng) state)" where
  "test_mlp ext timer cfg =
     (let train_set = fst (load_data ext (dataset cfg));
          valid_set = snd (load_data ext (dataset cfg))
      in case py_div (int (shape0 ext train_set)) (batch_size cfg) of
           Inl err \<Rightarrow> ([LoadData], Inl err)
         | Inr ntb \<Rightarrow>
       (case py_div (int (shape0 ext valid_set)) (batch_size cfg) of
           Inl err \<Rightarrow> ([LoadData], Inl err)
         | Inr nvb \<Rightarrow>
       (let built = layers ext (RandomState ext (rand_seed cfg)) (28 * 28) (n_hidden cfg) 10;
            classifier = MLP_init (layer_output ext) (layer_L1 ext) (layer_L2_sqr ext)
                           (layer_nll ext) (layer_errors ext);
            t = [LoadData, Print ''... building the model'', SeedRng (rand_seed cfg), BuildMLP]
        in case select_cost (floatX ext) cfg classifier of
             (evs, Inl err) \<Rightarrow> (t @ evs, Inl err)
           | (evs, Inr (c, cost)) \<Rightarrow>
               (let s = while_epochs
                          (compile_loop ext cfg train_set valid_set ntb nvb c cost)
                          (initial_state built (t @ evs))
                in (trace s @ [ReadTimer,
                      PrintSummary (fl_mul (floatX ext) (best_validation_loss s) (Fin 100))
                        (best_epoch s) (best_epoch s * ntb),
                      PrintDuration ((timer 1 - timer 0) / 60)],
                    Inr s)))))"

text \<open>Readings of the trace: the permutations drawn, with their epochs; the events
  that come after the cost is chosen (what is compiled, timed, drawn, trained,
  validated and reported).\<close>

fun draws :: "event list \<Rightarrow> (int \<times> nat list) list" where
  "draws [] = []"
| "draws (DrawPermutation e p # evs) = (e, p) # draws evs"
| "draws (ev # evs) = draws evs"

fun training_event :: "event \<Rightarrow> bool" where
  "training_event (Compile name) = True"
| "training_event ReadTimer = True"
| "training_event (DrawPermutation e p) = True"
| "training_event (TrainStep e i) = True"
| "training_event (ValidateStep e i) = True"
| "training_event (PrintEpoch e k v) = True"
| "training_event (PrintSummary v e k) = True"
| "training_event (PrintDuration t) = True"
| "training_event ev = False"

text \<open>The call of the script's last line, \<^verbatim>\<open>test_mlp(cor_reg=0.0001, n_epochs=10,
  batch_size=20)\<close>, with the defaults of the other arguments.\<close>

definition main_config :: config where
  "main_config =
     \<lparr>learning_rate = Fin 0.01, L1_reg = Fin 0, L2_reg = Fin 0.0001, cov_reg = Fin 0,
      cor_reg = Fin 0.0001, rand_seed = 1234, n_epochs = 10, dataset = ''mnist.pkl.gz'',
      batch_size = 20, n_hidden = 500, save_pairwise_activations = False\<rparr>"

section \<open>Reference quantities\<close>

text \<open>
  The statistics the penalties are meant to compute, written as in a textbook over a
  batch \<open>f\<close> of \<open>n\<close> rows (examples) whose entry \<open>f i j\<close> is the activation of unit \<open>j\<close>
  on example \<open>i\<close>. \<open>real_mat\<close> and \<open>real_vec\<close> are the tensors with these finite entries,
  and \<open>exact\<close> is the arithmetic that does not round.
\<close>

definition exact :: arith where
  "exact = \<lparr>rnd = Fin, rsqrt = (\<lambda>a. Fin (1 / sqrt a))\<rparr>"

definition real_vec :: "nat \<Rightarrow> (nat \<Rightarrow> real) \<Rightarrow> vec" where
  "real_vec h v = \<lparr>dim = h, vel = (\<lambda>j. Fin (v j))\<rparr>"

definition real_mat :: "nat \<Rightarrow> nat \<Rightarrow> (nat \<Rightarrow> nat \<Rightarrow> real) \<Rightarrow> mat" where
  "real_mat n h f = \<lparr>nrows = n, ncols = h, el = (\<lambda>i j. Fin (f i j))\<rparr>"

definition column_mean :: "(nat \<Rightarrow> nat \<Rightarrow> real) \<Rightarrow> nat \<Rightarrow> nat \<Rightarrow> real" where
  "column_mean f n j = (\<Sum>i<n. f i j) / real n"

definition sample_covariance :: "(nat \<Rightarrow> nat \<Rightarrow> real) \<Rightarrow> nat \<Rightarrow> nat \<Rightarrow> nat \<Rightarrow> real" where
  "sample_covariance f n j k =
     (\<Sum>i<n. (f i j - column_mean f n j) * (f i k - column_mean f n k)) / (real n - 1)"

text \<open>The minibatches an epoch is meant to use: the first \<open>k\<close> consecutive blocks of
  \<open>b\<close> entries of a sequence; and the parameters after each of a list of minibatches,
  each updated from the previous.\<close>

definition blocks :: "nat \<Rightarrow> nat \<Rightarrow> 'a list \<Rightarrow> 'a list list" where
  "blocks b k xs = map (\<lambda>i. take b (drop (i * b) xs)) [0..<k]"

fun descent :: "('b \<Rightarrow> 'p \<Rightarrow> 'p) \<Rightarrow> 'b list \<Rightarrow> 'p \<Rightarrow> 'p list" where
  "descent f [] p = []"
| "descent f (x # xs) p = f x p # descent f xs (f x p)"

text \<open>A small instance of the collaborators, for worked examples: the arithmetic is
  binary64, a data set is its number of rows (three for training, two for validation),
  the generator is a counter, a permutation is the indices in reverse, the one
  parameter is a matrix of one zero entry, every entry of a gradient is the value of
  the cost, the hidden layer has one unit, saturated at 1.0 on every example, and
  every minibatch has error one half.\<close>

definition toy_externals :: "(nat, nat) externals" where
  "toy_externals =
     \<lparr>floatX = float64,
      load_data = (\<lambda>name. (3, 2)),
      shape0 = (\<lambda>ds. ds),
      RandomState = (\<lambda>seed. nat seed),
      permutation = (\<lambda>r n. (rev [0..<n], Suc r)),
      layers = (\<lambda>r n_in n_hid n_out. ([\<lparr>nrows = 1, ncols = 1, el = (\<lambda>i j. Fin 0)\<rparr>], Suc r)),
      layer_output = (\<lambda>e. \<lparr>nrows = length (snd (snd e)), ncols = 1, el = (\<lambda>i j. Fin 1)\<rparr>),
      layer_L1 = (\<lambda>e. Fin 0),
      layer_L2_sqr = (\<lambda>e. Fin 0),
      layer_nll = (\<lambda>e. Fin 1),
      layer_errors = (\<lambda>e. Fin (1 / 2)),
      grad = (\<lambda>cost k e. \<lparr>nrows = 1, ncols = 1, el = (\<lambda>i j. cost e)\<rparr>)\<rparr>"

definition toy_loop :: "(nat, nat) loop" where
  "toy_loop =
     \<lparr>arithmetic = float64,
      max_epochs = 2, n_train = 3, n_train_batches = 1, n_valid_batches = 1,
      rng_permutation = (\<lambda>r n. (rev [0..<n], Suc r)),
      train_model = (\<lambda>index perm p. Suc p),
      validate_model = (\<lambda>index p. Fin (1 / 2))\<rparr>"

definition toy_state :: "(nat, nat) state" where
  "toy_state =
     \<lparr>params = 0, rng = 0, best_validation_loss = PInf, best_epoch = 0, epoch = 0,
      trace = [], trajectory = []\<rparr>"

section \<open>Rounding in binary64\<close>

text \<open>How a value is rounded, given the power of two that brings it between \<open>2 ^ 52\<close>
  and \<open>2 ^ 53\<close>; and the rounding of an inverse square root, from bounds on its
  square.\<close>

lemma round_even_unique:
  assumes "of_int m - 1 / 2 < r" and "r < of_int m + 1 / 2"
  shows "round_even r = m"
proof -
  have "\<lfloor>r\<rfloor> = m \<or> \<lfloor>r\<rfloor> = m - 1"
    using assms by linarith
  then show ?thesis
  proof
    assume f: "\<lfloor>r\<rfloor> = m"
    then have "r - of_int m < 1 / 2" using assms by linarith
    with f show ?thesis by (simp add: round_even_def Let_def)
  next
    assume f: "\<lfloor>r\<rfloor> = m - 1"
    then have "1 / 2 < r - of_int (m - 1)" using assms by simp
    with f show ?thesis by (simp add: round_even_def Let_def)
  qed
qed

lemma round_even_of_int [simp]: "round_even (of_int m) = m"
  by (rule round_even_unique) simp_all

lemma round_even_numeral [simp]:
  "round_even (numeral n) = numeral n" "round_even (- numeral n) = - numeral n"
  "round_even 0 = 0" "round_even 1 = 1" "round_even (- 1) = - 1"
  using round_even_of_int [of "numeral n"] round_even_of_int [of "- numeral n"]
    round_even_of_int [of 0] round_even_of_int [of 1] round_even_of_int [of "- 1"]
  by simp_all

lemma round_even_bound: "\<bar>real_of_int (round_even r)\<bar> \<le> \<bar>r\<bar> + 1"
  unfolding round_even_def Let_def by (auto; linarith)

lemma binary64_zero [simp]: "binary64 0 = Fin 0"
  by (simp add: binary64_def)

lemma binary64_eval:
  assumes lo: "2 ^ 52 \<le> \<bar>x\<bar> * 2 ^ k" and hi: "\<bar>x\<bar> * 2 ^ k < 2 ^ 53" and k: "k \<le> 1074"
  shows "binary64 x = Fin (of_int (round_even (x * 2 ^ k)) / 2 ^ k)"
proof -
  have x: "x \<noteq> 0" using lo by auto
  have p: "(2::real) powr (52 - real k) = 2 ^ 52 / 2 ^ k"
    by (simp add: powr_diff powr_realpow)
  have p': "(2::real) powr (52 - real k + 1) = 2 ^ 53 / 2 ^ k"
    by (simp add: powr_diff powr_add powr_realpow)
  have pos: "(0::real) < 2 ^ k" by simp
  have "\<lfloor>log 2 \<bar>x\<bar>\<rfloor> = 52 - int k"
  proof -
    have "2 ^ 52 / 2 ^ k \<le> \<bar>x\<bar>"
      using lo pos by (simp only: pos_divide_le_eq)
    moreover have "\<bar>x\<bar> < 2 ^ 53 / 2 ^ k"
      using hi pos by (simp only: pos_less_divide_eq)
    ultimately have "2 powr real_of_int (52 - int k) \<le> \<bar>x\<bar>
        \<and> \<bar>x\<bar> < 2 powr real_of_int (52 - int k + 1)"
      by (simp only: p p' of_int_diff of_int_add of_int_of_nat_eq of_int_numeral of_int_1)
    then show ?thesis
      using x by (subst floor_log_eq_powr_iff) simp_all
  qed
  moreover have "max (52 - int k) (- 1022) = 52 - int k" using k by simp
  moreover have q: "(2::real) powr real_of_int (52 - int k - 52) = 1 / 2 ^ k"
    by (simp add: powr_minus powr_realpow field_simps)
  moreover have "\<bar>real_of_int (round_even (x * 2 ^ k)) / 2 ^ k\<bar> < 2 ^ 1024"
  proof -
    have "\<bar>real_of_int (round_even (x * 2 ^ k))\<bar> \<le> \<bar>x * 2 ^ k\<bar> + 1"
      by (rule round_even_bound)
    also have "\<dots> < 2 ^ 53 + 1" using hi by (simp add: abs_mult)
    finally have a: "\<bar>real_of_int (round_even (x * 2 ^ k))\<bar> < 2 ^ 53 + 1" .
    have "\<bar>real_of_int (round_even (x * 2 ^ k)) / 2 ^ k\<bar>
            \<le> \<bar>real_of_int (round_even (x * 2 ^ k))\<bar>"
    proof -
      have "(1::real) \<le> 2 ^ k" by simp
      then have "\<bar>real_of_int (round_even (x * 2 ^ k))\<bar> * 1
          \<le> \<bar>real_of_int (round_even (x * 2 ^ k))\<bar> * 2 ^ k"
        by (intro mult_left_mono) simp_all
      then show ?thesis by (simp add: abs_divide field_simps)
    qed
    also have "\<dots> < 2 ^ 53 + 1" by (rule a)
    also have "(2::real) ^ 53 + 1 < 2 ^ 1024" by simp
    finally show ?thesis .
  qed
  ultimately show ?thesis
    using x by (simp add: binary64_def Let_def)
qed







lemma float64_rnd [simp]: "rnd float64 x = binary64 x"
  by (simp add: float64_def)

lemma binary64_small [simp]:
  "binary64 1 = Fin 1" "binary64 2 = Fin 2" "binary64 (1 / 2) = Fin (1 / 2)"
proof -
  show "binary64 1 = Fin 1"
    using binary64_eval [of 1 52] by simp
  show "binary64 2 = Fin 2"
    using binary64_eval [of 2 51] by simp
  show "binary64 (1 / 2) = Fin (1 / 2)"
    using binary64_eval [of "1 / 2" 53] by simp
qed

lemma exact_sel [simp]: "rnd exact x = Fin x" "rsqrt exact a = Fin (1 / sqrt a)"
  by (simp_all add: exact_def)

section \<open>Shapes and entries\<close>

lemma real_mat_sel [simp]:
  "nrows (real_mat n h f) = n" "ncols (real_mat n h f) = h" "el (real_mat n h f) i j = Fin (f i j)"
  by (simp_all add: real_mat_def)

lemma real_vec_sel [simp]: "dim (real_vec h v) = h" "vel (real_vec h v) j = Fin (v j)"
  by (simp_all add: real_vec_def)

lemma shape_simps [simp]:
  "nrows (sub_rows ar M v) = nrows M" "ncols (sub_rows ar M v) = ncols M"
  "nrows (vec_times_mat ar v M) = nrows M" "ncols (vec_times_mat ar v M) = ncols M"
  "nrows (mat_times_vec ar M v) = nrows M" "ncols (mat_times_vec ar M v) = ncols M"
  "nrows (transpose_mat M) = ncols M" "ncols (transpose_mat M) = nrows M"
  "nrows (dot ar A B) = nrows A" "ncols (dot ar A B) = ncols B"
  "nrows (scalar_times_mat ar c M) = nrows M" "ncols (scalar_times_mat ar c M) = ncols M"
  "nrows (sqr_mat ar M) = nrows M" "ncols (sqr_mat ar M) = ncols M"
  by (simp_all add: sub_rows_def vec_times_mat_def mat_times_vec_def transpose_mat_def dot_def
      scalar_times_mat_def sqr_mat_def)

lemma entry_simps [simp]:
  "el (vec_times_mat ar v M) i j = fl_mul ar (vel v j) (el M i j)"
  "el (mat_times_vec ar M v) i j = fl_mul ar (el M i j) (vel v j)"
  "el (transpose_mat M) i j = el M j i"
  "el (sqr_mat ar M) i j = fl_mul ar (el M i j) (el M i j)"
  by (simp_all add: vec_times_mat_def mat_times_vec_def transpose_mat_def sqr_mat_def)

lemma more_entry_simps:
  "el (sub_rows ar M v) i j = fl_sub ar (el M i j) (vel v j)"
  "el (scalar_times_mat ar c M) i j = fl_mul ar c (el M i j)"
  "el (dot ar A B) i k = fl_sum ar (map (\<lambda>l. fl_mul ar (el A i l) (el B l k)) [0..<ncols A])"
  "vel (scalar_times_vec ar c v) j = fl_mul ar c (vel v j)"
  "vel (pow_neg_half_vec ar v) j = pow_neg_half ar (vel v j)"
  "vel (sum0 ar M) j = fl_sum ar (map (\<lambda>i. el M i j) [0..<nrows M])"
  "vel (mean0 ar M) j = fl_div ar (vel (sum0 ar M) j) (fl_of_int ar (int (nrows M)))"
  "vel (diagonal M) j = el M j j"
  "dim (diagonal M) = min (nrows M) (ncols M)"
  by (simp_all add: sub_rows_def scalar_times_mat_def dot_def scalar_times_vec_def
      pow_neg_half_vec_def sum0_def mean0_def diagonal_def)


section \<open>The attributes the two penalties write\<close>

text \<open>
  Claim C10, as the code has it. \<^verbatim>\<open>set_covariance\<close> and \<^verbatim>\<open>set_correlation\<close> both assign
  \<^verbatim>\<open>minibatch_size\<close>, \<^verbatim>\<open>mean_activation\<close>, \<^verbatim>\<open>centered_activation\<close> and
  \<^verbatim>\<open>activation_covariance\<close>, to the same expressions of the hidden layer's output,
  whatever these attributes held before; so one called after the other overwrites
  them. Besides these, \<^verbatim>\<open>set_covariance\<close> assigns \<^verbatim>\<open>covariance_squared\<close> and
  \<^verbatim>\<open>off_diag_cov_sqr\<close> and leaves the four attributes of the correlation alone, and
  \<^verbatim>\<open>set_correlation\<close> assigns \<^verbatim>\<open>inv_std_vec\<close>, \<^verbatim>\<open>activation_correlation\<close>,
  \<^verbatim>\<open>correlation_squared\<close> and \<^verbatim>\<open>off_diag_cor_sqr\<close> and leaves the two of the covariance
  alone.
\<close>

theorem penalty_attributes:
  "minibatch_size (set_covariance ar self) = Some (\<lambda>e. int (nrows (hiddenLayer_output self e)))
   \<and> mean_activation (set_covariance ar self) = Some (\<lambda>e. mean0 ar (hiddenLayer_output self e))
   \<and> minibatch_size (set_correlation ar self) = minibatch_size (set_covariance ar self)
   \<and> mean_activation (set_correlation ar self) = mean_activation (set_covariance ar self)
   \<and> centered_activation (set_correlation ar self) = centered_activation (set_covariance ar self)
   \<and> activation_covariance (set_correlation ar self) = activation_covariance (set_covariance ar self)
   \<and> centered_activation (set_covariance ar self) \<noteq> None
   \<and> activation_covariance (set_covariance ar self) \<noteq> None
   \<and> minibatch_size (set_correlation ar (set_covariance ar self)) = minibatch_size (set_covariance ar self)
   \<and> mean_activation (set_correlation ar (set_covariance ar self)) = mean_activation (set_covariance ar self)
   \<and> centered_activation (set_correlation ar (set_covariance ar self))
        = centered_activation (set_covariance ar self)
   \<and> activation_covariance (set_correlation ar (set_covariance ar self))
        = activation_covariance (set_covariance ar self)
   \<and> covariance_squared (set_covariance ar self) \<noteq> None
   \<and> off_diag_cov_sqr (set_covariance ar self) \<noteq> None
   \<and> inv_std_vec (set_covariance ar self) = inv_std_vec self
   \<and> activation_correlation (set_covariance ar self) = activation_correlation self
   \<and> correlation_squared (set_covariance ar self) = correlation_squared self
   \<and> off_diag_cor_sqr (set_covariance ar self) = off_diag_cor_sqr self
   \<and> inv_std_vec (set_correlation ar self) \<noteq> None
   \<and> activation_correlation (set_correlation ar self) \<noteq> None
   \<and> correlation_squared (set_correlation ar self) \<noteq> None
   \<and> off_diag_cor_sqr (set_correlation ar self) \<noteq> None
   \<and> covariance_squared (set_correlation ar self) = covariance_squared self
   \<and> off_diag_cov_sqr (set_correlation ar self) = off_diag_cov_sqr self"
  by (simp add: set_covariance_def set_correlation_def Let_def)

text \<open>The claim as stated fails: \<^verbatim>\<open>covariance_squared\<close> is neither shared nor one of the
  two final results, and only \<^verbatim>\<open>set_covariance\<close> assigns it.\<close>

theorem penalty_attributes_counterexample:
  "covariance_squared (set_covariance float64
        (MLP_init (\<lambda>X. X) (\<lambda>X. Fin 0) (\<lambda>X. Fin 0) (\<lambda>X. Fin 0) (\<lambda>X. Fin 0)))
     \<noteq> covariance_squared (set_correlation float64
        (MLP_init (\<lambda>X. X) (\<lambda>X. Fin 0) (\<lambda>X. Fin 0) (\<lambda>X. Fin 0) (\<lambda>X. Fin 0)))"
  by (simp add: set_covariance_def set_correlation_def Let_def MLP_init_def)

section \<open>The best-model record\<close>

lemma epoch_epoch_body [simp]: "epoch (epoch_body L s) = epoch s + 1"
  by (simp add: epoch_body_def Let_def)

lemma fl_less_irrefl [simp]: "\<not> fl_less x x"
  by (cases x) simp_all

lemma fl_less_trans: "fl_less x y \<Longrightarrow> fl_less y z \<Longrightarrow> fl_less x z"
  by (cases x; cases y; cases z) simp_all

lemma fl_less_asym: "fl_less x y \<Longrightarrow> \<not> fl_less y x"
  by (cases x; cases y) simp_all

lemma best_epoch_body:
  "best_validation_loss (epoch_body L s) =
     (if fl_less (this_validation_loss L (params (epoch_body L s))) (best_validation_loss s)
      then this_validation_loss L (params (epoch_body L s)) else best_validation_loss s)"
  "best_epoch (epoch_body L s) =
     (if fl_less (this_validation_loss L (params (epoch_body L s))) (best_validation_loss s)
      then epoch s + 1 else best_epoch s)"
  by (simp_all add: epoch_body_def Let_def)

lemma best_while:
  "best_validation_loss (while_epochs L s) = best_validation_loss s
     \<or> fl_less (best_validation_loss (while_epochs L s)) (best_validation_loss s)"
proof (induction L s rule: while_epochs.induct)
  case (1 L s)
  show ?case
  proof (cases "epoch s < max_epochs L")
    case False
    then show ?thesis by (simp add: while_epochs.simps [of L s])
  next
    case True
    then have eq: "while_epochs L s = while_epochs L (epoch_body L s)"
      by (simp add: while_epochs.simps [of L s])
    have step: "best_validation_loss (epoch_body L s) = best_validation_loss s
       \<or> fl_less (best_validation_loss (epoch_body L s)) (best_validation_loss s)"
      by (simp add: best_epoch_body)
    from "1.IH" [OF True] step show ?thesis
      unfolding eq by (auto dest: fl_less_trans)
  qed
qed


lemma best_epoch_while:
  "best_epoch (while_epochs L s) = best_epoch s
     \<or> fl_less (best_validation_loss (while_epochs L s)) (best_validation_loss s)"
proof (induction L s rule: while_epochs.induct)
  case (1 L s)
  show ?case
  proof (cases "epoch s < max_epochs L")
    case False
    then show ?thesis by (simp add: while_epochs.simps [of L s])
  next
    case True
    then have eq: "while_epochs L s = while_epochs L (epoch_body L s)"
      by (simp add: while_epochs.simps [of L s])
    show ?thesis
    proof (cases "fl_less (this_validation_loss L (params (epoch_body L s))) (best_validation_loss s)")
      case better: True
      then have "fl_less (best_validation_loss (epoch_body L s)) (best_validation_loss s)"
        by (simp add: best_epoch_body)
      with best_while [of L "epoch_body L s"] show ?thesis
        unfolding eq by (auto dest: fl_less_trans)
    next
      case same: False
      then have "best_validation_loss (epoch_body L s) = best_validation_loss s"
        and "best_epoch (epoch_body L s) = best_epoch s"
        by (simp_all add: best_epoch_body)
      with "1.IH" [OF True] show ?thesis unfolding eq by simp
    qed
  qed
qed

text \<open>
  Claim C6. In every epoch the record (\<^verbatim>\<open>best_validation_loss\<close>, \<^verbatim>\<open>best_epoch\<close>) is
  replaced by this epoch's validation error and number when that error is strictly
  less than the best so far, and is left as it is otherwise, a tie included; the
  recorded best error never increases, over one epoch and over the rest of the run from
  any state, and the recorded epoch changes only with a strictly lower error.
\<close>

theorem best_model_record:
  "(fl_less (this_validation_loss L (params (epoch_body L s))) (best_validation_loss s) \<longrightarrow>
      best_validation_loss (epoch_body L s) = this_validation_loss L (params (epoch_body L s))
      \<and> best_epoch (epoch_body L s) = epoch s + 1)
   \<and> (\<not> fl_less (this_validation_loss L (params (epoch_body L s))) (best_validation_loss s) \<longrightarrow>
      best_validation_loss (epoch_body L s) = best_validation_loss s
      \<and> best_epoch (epoch_body L s) = best_epoch s)
   \<and> (this_validation_loss L (params (epoch_body L s)) = best_validation_loss s \<longrightarrow>
      best_validation_loss (epoch_body L s) = best_validation_loss s
      \<and> best_epoch (epoch_body L s) = best_epoch s)
   \<and> \<not> fl_less (best_validation_loss s) (best_validation_loss (epoch_body L s))
   \<and> \<not> fl_less (best_validation_loss s) (best_validation_loss (while_epochs L s))
   \<and> (best_epoch (while_epochs L s) \<noteq> best_epoch s \<longrightarrow>
      fl_less (best_validation_loss (while_epochs L s)) (best_validation_loss s))"
proof -
  have a: "\<not> fl_less (best_validation_loss s) (best_validation_loss (epoch_body L s))"
    by (auto simp: best_epoch_body dest: fl_less_asym)
  have b: "\<not> fl_less (best_validation_loss s) (best_validation_loss (while_epochs L s))"
    using best_while [of L s] by (auto dest: fl_less_asym)
  have c: "best_epoch (while_epochs L s) \<noteq> best_epoch s \<longrightarrow>
      fl_less (best_validation_loss (while_epochs L s)) (best_validation_loss s)"
    using best_epoch_while [of L s] by blast
  show ?thesis
    using a b c by (simp add: best_epoch_body)
qed

theorem best_model_record_witness:
  "best_validation_loss (epoch_body toy_loop toy_state) = Fin (1 / 2)
   \<and> best_epoch (epoch_body toy_loop toy_state) = 1"
proof -
  have loss: "this_validation_loss toy_loop (params (epoch_body toy_loop toy_state)) = Fin (1 / 2)"
    by (simp add: this_validation_loss_def toy_loop_def np_mean_def xrange_def fl_of_int_def exact_def)
  have "best_validation_loss toy_state = PInf" "epoch toy_state = 0"
    by (simp_all add: toy_state_def)
  with best_model_record [of toy_loop toy_state] loss show ?thesis by simp
qed

section \<open>The run of the script\<close>

lemma draws_append [simp]: "draws (xs @ ys) = draws xs @ draws ys"
  by (induction xs rule: draws.induct) simp_all

lemma draws_TrainStep [simp]: "draws (map (TrainStep e) xs) = []"
  by (induction xs) simp_all

lemma draws_ValidateStep [simp]: "draws (map (ValidateStep e) xs) = []"
  by (induction xs) simp_all

lemma draws_epoch_body:
  "draws (trace (epoch_body L s))
     = draws (trace s) @ [(epoch s + 1, fst (rng_permutation L (rng s) (n_train L)))]"
  by (simp add: epoch_body_def Let_def)

lemma draws_while:
  "\<forall>r. P (fst (rng_permutation L r (n_train L))) \<Longrightarrow>
   \<forall>(e, p) \<in> set (draws (trace s)). P p \<Longrightarrow>
   \<forall>(e, p) \<in> set (draws (trace (while_epochs L s))). P p"
proof (induction L s rule: while_epochs.induct)
  case (1 L s)
  show ?case
  proof (cases "epoch s < max_epochs L")
    case False
    then show ?thesis using "1.prems" by (simp add: while_epochs.simps [of L s])
  next
    case True
    then have eq: "while_epochs L s = while_epochs L (epoch_body L s)"
      by (simp add: while_epochs.simps [of L s])
    have "\<forall>(e, p) \<in> set (draws (trace (epoch_body L s))). P p"
      using "1.prems" by (simp add: draws_epoch_body)
    from "1.IH" [OF True "1.prems"(1) this] show ?thesis unfolding eq .
  qed
qed

lemma epochs_while:
  "map fst (draws (trace (while_epochs L s)))
     = map fst (draws (trace s)) @ map (\<lambda>k. epoch s + 1 + int k) [0..<nat (max_epochs L - epoch s)]"
proof (induction L s rule: while_epochs.induct)
  case (1 L s)
  show ?case
  proof (cases "epoch s < max_epochs L")
    case False
    then show ?thesis by (simp add: while_epochs.simps [of L s])
  next
    case True
    then have eq: "while_epochs L s = while_epochs L (epoch_body L s)"
      by (simp add: while_epochs.simps [of L s])
    from True obtain k where k: "nat (max_epochs L - epoch s) = Suc k"
      "nat (max_epochs L - (epoch s + 1)) = k"
      by (metis Suc_nat_eq_nat_zadd1 add.commute diff_add_eq_diff_diff_swap
          diff_ge_0_iff_ge diff_add_cancel zle_add1_eq_le nat_0_le of_nat_Suc)
    have "map (\<lambda>j. epoch s + 1 + int j) [0..<Suc k]
        = (epoch s + 1) # map (\<lambda>j. epoch s + 1 + 1 + int j) [0..<k]"
      by (simp add: upt_conv_Cons map_Suc_upt [symmetric] del: upt_Suc)
    with "1.IH" [OF True] show ?thesis
      unfolding eq by (simp add: draws_epoch_body k del: upt_Suc)
  qed
qed

lemma epoch_while: "epoch (while_epochs L s) = max (epoch s) (max_epochs L)"
proof (induction L s rule: while_epochs.induct)
  case (1 L s)
  show ?case
  proof (cases "epoch s < max_epochs L")
    case False
    then show ?thesis by (simp add: while_epochs.simps [of L s])
  next
    case True
    then have eq: "while_epochs L s = while_epochs L (epoch_body L s)"
      by (simp add: while_epochs.simps [of L s])
    from "1.IH" [OF True] True show ?thesis unfolding eq by simp
  qed
qed

lemma trace_epoch_body: "\<exists>evs. trace (epoch_body L s) = trace s @ evs"
  by (simp add: epoch_body_def Let_def)

lemma trace_while: "\<exists>evs. trace (while_epochs L s) = trace s @ evs"
proof (induction L s rule: while_epochs.induct)
  case (1 L s)
  show ?case
  proof (cases "epoch s < max_epochs L")
    case False
    then show ?thesis by (simp add: while_epochs.simps [of L s])
  next
    case True
    then have eq: "while_epochs L s = while_epochs L (epoch_body L s)"
      by (simp add: while_epochs.simps [of L s])
    from "1.IH" [OF True] trace_epoch_body [of L s] show ?thesis
      unfolding eq by auto
  qed
qed

lemma set_trace_while: "set (trace s) \<subseteq> set (trace (while_epochs L s))"
  using trace_while [of L s] by auto

lemma first_train_step:
  assumes "epoch s < max_epochs L" and "0 < n_train_batches L"
  shows "TrainStep (epoch s + 1) 0 \<in> set (trace (while_epochs L s))"
proof -
  have eq: "while_epochs L s = while_epochs L (epoch_body L s)"
    using assms(1) by (simp add: while_epochs.simps [of L s])
  have "0 \<in> set (xrange (n_train_batches L))"
    using assms(2) by (simp add: xrange_def image_iff)
  then have "TrainStep (epoch s + 1) 0 \<in> set (trace (epoch_body L s))"
    by (simp add: epoch_body_def Let_def image_iff)
  with set_trace_while [of "epoch_body L s" L] show ?thesis
    unfolding eq by blast
qed

lemma base_cost_set [simp]:
  "base_cost ar cfg (set_covariance ar c) = base_cost ar cfg c"
  "base_cost ar cfg (set_correlation ar c) = base_cost ar cfg c"
  by (simp_all add: base_cost_def fun_eq_iff set_covariance_def set_correlation_def Let_def)

lemma select_cost_both:
  "cov_reg cfg \<noteq> Fin 0 \<Longrightarrow> cor_reg cfg \<noteq> Fin 0 \<Longrightarrow>
     select_cost ar cfg c =
       ([Print ''Cannot use covariance and correlation penalties simulataneously. Terminating program...''],
        Inl (SystemExit 1))"
  by (simp add: select_cost_def)

lemma select_cost_valid:
  assumes "\<not> (cov_reg cfg \<noteq> Fin 0 \<and> cor_reg cfg \<noteq> Fin 0)"
  shows "(cov_reg cfg = Fin 0 \<and> cor_reg cfg = Fin 0
            \<and> select_cost ar cfg c = ([], Inr (c, base_cost ar cfg c)))
       \<or> (cov_reg cfg \<noteq> Fin 0 \<and> cor_reg cfg = Fin 0
            \<and> (\<exists>p. off_diag_cov_sqr (set_covariance ar c) = Some p
                 \<and> select_cost ar cfg c = ([SetCovariance], Inr (set_covariance ar c,
                      \<lambda>e. fl_add ar (base_cost ar cfg c e) (fl_mul ar (cov_reg cfg) (p e))))))
       \<or> (cov_reg cfg = Fin 0 \<and> cor_reg cfg \<noteq> Fin 0
            \<and> (\<exists>p. off_diag_cor_sqr (set_correlation ar c) = Some p
                 \<and> select_cost ar cfg c = ([SetCorrelation], Inr (set_correlation ar c,
                      \<lambda>e. fl_add ar (base_cost ar cfg c e) (fl_mul ar (cor_reg cfg) (p e))))))"
proof -
  have 1: "\<exists>p. off_diag_cov_sqr (set_covariance ar c) = Some p"
    by (simp add: set_covariance_def Let_def)
  have 2: "\<exists>p. off_diag_cor_sqr (set_correlation ar c) = Some p"
    by (simp add: set_correlation_def Let_def)
  from 1 2 assms show ?thesis
    by (auto simp: select_cost_def Let_def)
qed

lemma select_cost_Inr:
  assumes "\<not> (cov_reg cfg \<noteq> Fin 0 \<and> cor_reg cfg \<noteq> Fin 0)"
  shows "\<exists>evs c' cost. select_cost ar cfg c = (evs, Inr (c', cost))
           \<and> set evs \<subseteq> {SetCovariance, SetCorrelation}"
  using select_cost_valid [OF assms, where c = c and ar = ar] by auto


lemma test_mlp_zero_batch:
  "batch_size cfg = 0 \<Longrightarrow> test_mlp ext timer cfg = ([LoadData], Inl ZeroDivisionError)"
  by (simp add: test_mlp_def py_div_def Let_def)

lemma test_mlp_exit:
  assumes "batch_size cfg \<noteq> 0" and "cov_reg cfg \<noteq> Fin 0" and "cor_reg cfg \<noteq> Fin 0"
  shows "test_mlp ext timer cfg =
     ([LoadData, Print ''... building the model'', SeedRng (rand_seed cfg), BuildMLP,
       Print ''Cannot use covariance and correlation penalties simulataneously. Terminating program...''],
      Inl (SystemExit 1))"
  using assms by (simp add: test_mlp_def py_div_def Let_def select_cost_both)

lemma test_mlp_runs:
  assumes bs: "batch_size cfg \<noteq> 0"
    and sel: "select_cost (floatX ext) cfg (MLP_init (layer_output ext) (layer_L1 ext) (layer_L2_sqr ext)
                  (layer_nll ext) (layer_errors ext)) = (evs, Inr (c, cost))"
  shows "\<exists>L s0 s. L = compile_loop ext cfg (fst (load_data ext (dataset cfg)))
              (snd (load_data ext (dataset cfg)))
              (int (shape0 ext (fst (load_data ext (dataset cfg)))) div batch_size cfg)
              (int (shape0 ext (snd (load_data ext (dataset cfg)))) div batch_size cfg) c cost
         \<and> s0 = initial_state
              (layers ext (RandomState ext (rand_seed cfg)) (28 * 28) (n_hidden cfg) 10)
              ([LoadData, Print ''... building the model'', SeedRng (rand_seed cfg), BuildMLP] @ evs)
         \<and> s = while_epochs L s0
         \<and> test_mlp ext timer cfg =
             (trace s @ [ReadTimer,
                PrintSummary (fl_mul (floatX ext) (best_validation_loss s) (Fin 100)) (best_epoch s)
                  (best_epoch s * n_train_batches L),
                PrintDuration ((timer 1 - timer 0) / 60)],
              Inr s)"
  using bs sel by (simp add: test_mlp_def py_div_def Let_def compile_loop_def)

lemma select_cost_events:
  assumes "select_cost ar cfg c = (evs, r)"
  shows "draws evs = [] \<and> filter training_event evs = []"
  using assms by (auto simp: select_cost_def Let_def split: if_splits option.splits)

lemma test_mlp_loop:
  assumes bs: "batch_size cfg \<noteq> 0"
    and ok: "\<not> (cov_reg cfg \<noteq> Fin 0 \<and> cor_reg cfg \<noteq> Fin 0)"
  shows "\<exists>L s0 evs. max_epochs L = n_epochs cfg
      \<and> n_train L = shape0 ext (fst (load_data ext (dataset cfg)))
      \<and> n_train_batches L
           = int (shape0 ext (fst (load_data ext (dataset cfg)))) div batch_size cfg
      \<and> rng_permutation L = permutation ext
      \<and> epoch s0 = 0
      \<and> trace s0 = [LoadData, Print ''... building the model'', SeedRng (rand_seed cfg), BuildMLP]
           @ evs @ [Compile ''validate_model'', Compile ''train_model'',
                    Print ''... training'', ReadTimer]
      \<and> draws evs = []
      \<and> snd (test_mlp ext timer cfg) = Inr (while_epochs L s0)
      \<and> fst (test_mlp ext timer cfg) = trace (while_epochs L s0) @ [ReadTimer,
           PrintSummary (fl_mul (floatX ext) (best_validation_loss (while_epochs L s0)) (Fin 100))
             (best_epoch (while_epochs L s0))
             (best_epoch (while_epochs L s0) * n_train_batches L),
           PrintDuration ((timer 1 - timer 0) / 60)]"
proof -
  let ?c = "MLP_init (layer_output ext) (layer_L1 ext) (layer_L2_sqr ext)
                  (layer_nll ext) (layer_errors ext)"
  from select_cost_Inr [OF ok, where c = ?c and ar = "floatX ext"] obtain evs c' cost
    where sel: "select_cost (floatX ext) cfg ?c = (evs, Inr (c', cost))" by blast
  from test_mlp_runs [OF bs sel, of timer] obtain L s0 s where
    L: "L = compile_loop ext cfg (fst (load_data ext (dataset cfg)))
              (snd (load_data ext (dataset cfg)))
              (int (shape0 ext (fst (load_data ext (dataset cfg)))) div batch_size cfg)
              (int (shape0 ext (snd (load_data ext (dataset cfg)))) div batch_size cfg) c' cost"
    and s0: "s0 = initial_state
              (layers ext (RandomState ext (rand_seed cfg)) (28 * 28) (n_hidden cfg) 10)
              ([LoadData, Print ''... building the model'', SeedRng (rand_seed cfg), BuildMLP] @ evs)"
    and s: "s = while_epochs L s0"
    and run: "test_mlp ext timer cfg =
             (trace s @ [ReadTimer,
                PrintSummary (fl_mul (floatX ext) (best_validation_loss s) (Fin 100)) (best_epoch s)
                  (best_epoch s * n_train_batches L),
                PrintDuration ((timer 1 - timer 0) / 60)],
              Inr s)"
    by blast
  have 1: "max_epochs L = n_epochs cfg"
    "n_train L = shape0 ext (fst (load_data ext (dataset cfg)))"
    "n_train_batches L = int (shape0 ext (fst (load_data ext (dataset cfg)))) div batch_size cfg"
    "rng_permutation L = permutation ext"
    by (simp_all add: L compile_loop_def)
  have 2: "epoch s0 = 0"
    "trace s0 = [LoadData, Print ''... building the model'', SeedRng (rand_seed cfg), BuildMLP]
           @ evs @ [Compile ''validate_model'', Compile ''train_model'',
                    Print ''... training'', ReadTimer]"
    by (simp_all add: s0 initial_state_def)
  have 3: "draws evs = []"
    using select_cost_events [OF sel] by simp
  have 4: "snd (test_mlp ext timer cfg) = Inr (while_epochs L s0)"
    "fst (test_mlp ext timer cfg) = trace (while_epochs L s0) @ [ReadTimer,
           PrintSummary (fl_mul (floatX ext) (best_validation_loss (while_epochs L s0)) (Fin 100))
             (best_epoch (while_epochs L s0))
             (best_epoch (while_epochs L s0) * n_train_batches L),
           PrintDuration ((timer 1 - timer 0) / 60)]"
    by (simp_all add: run s)
  from 1 2 3 4 show ?thesis by blast
qed

lemma test_mlp_completes:
  assumes bs: "batch_size cfg \<noteq> 0"
    and ok: "\<not> (cov_reg cfg \<noteq> Fin 0 \<and> cor_reg cfg \<noteq> Fin 0)"
  shows "(\<exists>s. snd (test_mlp ext timer cfg) = Inr s \<and> epoch s = max 0 (n_epochs cfg))
       \<and> Compile ''train_model'' \<in> set (fst (test_mlp ext timer cfg))"
proof -
  from test_mlp_loop [OF bs ok, of ext timer] obtain L s0 evs where
    L: "max_epochs L = n_epochs cfg"
    and s0: "epoch s0 = 0"
      "trace s0 = [LoadData, Print ''... building the model'', SeedRng (rand_seed cfg), BuildMLP]
           @ evs @ [Compile ''validate_model'', Compile ''train_model'',
                    Print ''... training'', ReadTimer]"
    and run: "snd (test_mlp ext timer cfg) = Inr (while_epochs L s0)"
      "fst (test_mlp ext timer cfg) = trace (while_epochs L s0) @ [ReadTimer,
           PrintSummary (fl_mul (floatX ext) (best_validation_loss (while_epochs L s0)) (Fin 100))
             (best_epoch (while_epochs L s0))
             (best_epoch (while_epochs L s0) * n_train_batches L),
           PrintDuration ((timer 1 - timer 0) / 60)]"
    by blast
  have "epoch (while_epochs L s0) = max 0 (n_epochs cfg)"
    using epoch_while [of L s0] L s0(1) by simp
  moreover have "Compile ''train_model'' \<in> set (trace s0)"
    by (simp add: s0(2))
  then have "Compile ''train_model'' \<in> set (trace (while_epochs L s0))"
    using set_trace_while [of s0 L] by blast
  ultimately show ?thesis using run by simp
qed

lemma test_mlp_batch_one:
  assumes bs: "batch_size cfg = 1"
    and ok: "\<not> (cov_reg cfg \<noteq> Fin 0 \<and> cor_reg cfg \<noteq> Fin 0)"
    and ep: "0 < n_epochs cfg"
    and data: "0 < shape0 ext (fst (load_data ext (dataset cfg)))"
  shows "TrainStep 1 0 \<in> set (fst (test_mlp ext timer cfg))"
proof -
  have bs': "batch_size cfg \<noteq> 0" using bs by simp
  from test_mlp_loop [OF bs' ok, of ext timer] obtain L s0 where
    L: "max_epochs L = n_epochs cfg"
       "n_train_batches L = int (shape0 ext (fst (load_data ext (dataset cfg)))) div batch_size cfg"
    and s0: "epoch s0 = 0"
    and res: "snd (test_mlp ext timer cfg) = Inr (while_epochs L s0)"
    and run: "fst (test_mlp ext timer cfg) = trace (while_epochs L s0) @ [ReadTimer,
           PrintSummary (fl_mul (floatX ext) (best_validation_loss (while_epochs L s0)) (Fin 100))
             (best_epoch (while_epochs L s0))
             (best_epoch (while_epochs L s0) * n_train_batches L),
           PrintDuration ((timer 1 - timer 0) / 60)]"
    by blast
  have "0 < n_train_batches L" using L(2) bs data by simp
  moreover have "epoch s0 < max_epochs L" using L(1) s0 ep by simp
  ultimately have "TrainStep (epoch s0 + 1) 0 \<in> set (trace (while_epochs L s0))"
    by (rule first_train_step [rotated])
  then show ?thesis using run s0 by simp
qed

text \<open>
  Claim C5, as the code has it. \<^verbatim>\<open>test_mlp\<close> does not check the batch size. A batch size
  of zero stops it at the start, by the \<^verbatim>\<open>ZeroDivisionError\<close> of the batch count; with
  any other batch size, 1 and the negative ones included, and weights that are not both
  nonzero, the model is built, the functions are compiled and the loop runs through its
  epochs; with batch size 1, a nonempty training set and an epoch to run, minibatches
  are trained.
\<close>

theorem batch_size_not_checked:
  "(batch_size cfg = 0 \<longrightarrow> test_mlp ext timer cfg = ([LoadData], Inl ZeroDivisionError))
   \<and> (batch_size cfg \<noteq> 0 \<and> \<not> (cov_reg cfg \<noteq> Fin 0 \<and> cor_reg cfg \<noteq> Fin 0) \<longrightarrow>
        (\<exists>s. snd (test_mlp ext timer cfg) = Inr s \<and> epoch s = max 0 (n_epochs cfg))
        \<and> Compile ''train_model'' \<in> set (fst (test_mlp ext timer cfg)))
   \<and> (batch_size cfg = 1 \<and> \<not> (cov_reg cfg \<noteq> Fin 0 \<and> cor_reg cfg \<noteq> Fin 0)
        \<and> 0 < n_epochs cfg \<and> 0 < shape0 ext (fst (load_data ext (dataset cfg))) \<longrightarrow>
        TrainStep 1 0 \<in> set (fst (test_mlp ext timer cfg)))"
  using test_mlp_zero_batch [of cfg ext timer] test_mlp_completes [of cfg ext timer]
    test_mlp_batch_one [of cfg ext timer]
  by blast

theorem batch_size_not_checked_witness:
  "(\<exists>s. snd (test_mlp toy_externals (\<lambda>k. 0) (main_config\<lparr>batch_size := 1\<rparr>)) = Inr s
        \<and> epoch s = 10)
   \<and> TrainStep 1 0 \<in> set (fst (test_mlp toy_externals (\<lambda>k. 0) (main_config\<lparr>batch_size := 1\<rparr>)))"
  using batch_size_not_checked [of "main_config\<lparr>batch_size := 1\<rparr>" toy_externals "\<lambda>k. 0"]
  by (simp add: main_config_def toy_externals_def)

text \<open>The claim as stated fails: a run with batch size 1 is not rejected, and it
  trains.\<close>

theorem batch_size_not_checked_counterexample:
  "batch_size (main_config\<lparr>batch_size := 1\<rparr>) \<le> 1
   \<and> \<not> isl (snd (test_mlp toy_externals (\<lambda>k. 0) (main_config\<lparr>batch_size := 1\<rparr>)))
   \<and> TrainStep 1 0 \<in> set (fst (test_mlp toy_externals (\<lambda>k. 0) (main_config\<lparr>batch_size := 1\<rparr>)))"
proof -
  have "\<exists>s. snd (test_mlp toy_externals (\<lambda>k. 0) (main_config\<lparr>batch_size := 1\<rparr>)) = Inr s"
    using test_mlp_completes [of "main_config\<lparr>batch_size := 1\<rparr>" toy_externals "\<lambda>k. 0"]
    by (auto simp: main_config_def)
  then have "\<not> isl (snd (test_mlp toy_externals (\<lambda>k. 0) (main_config\<lparr>batch_size := 1\<rparr>)))"
    by auto
  moreover have "TrainStep 1 0 \<in> set (fst (test_mlp toy_externals (\<lambda>k. 0) (main_config\<lparr>batch_size := 1\<rparr>)))"
    by (rule test_mlp_batch_one) (simp_all add: main_config_def toy_externals_def)
  ultimately show ?thesis by (simp add: main_config_def)
qed

lemma test_mlp_not_exit:
  assumes ok: "\<not> (cov_reg cfg \<noteq> Fin 0 \<and> cor_reg cfg \<noteq> Fin 0)"
  shows "snd (test_mlp ext timer cfg) \<noteq> Inl (SystemExit k)"
proof (cases "batch_size cfg = 0")
  case True
  then show ?thesis by (simp add: test_mlp_zero_batch)
next
  case False
  from test_mlp_completes [OF False ok, of ext timer] show ?thesis by auto
qed

text \<open>
  Claim C1. When both weights are nonzero \<^verbatim>\<open>test_mlp\<close> ends with a nonzero exit status
  before anything is compiled, timed, drawn, trained or validated: by \<^verbatim>\<open>sys.exit(1)\<close>
  after the data is loaded and the model is built, or, when the batch size is zero, by
  the \<^verbatim>\<open>ZeroDivisionError\<close> of the batch count. For every other pair of weights it
  does not exit so, and the cost is the base cost alone, or with the covariance
  penalty, or with the correlation penalty, as the weights select.
\<close>

theorem exclusive_penalties:
  "(cov_reg cfg \<noteq> Fin 0 \<and> cor_reg cfg \<noteq> Fin 0 \<longrightarrow>
      (\<exists>err. snd (test_mlp ext timer cfg) = Inl err \<and> exit_status err \<noteq> 0)
      \<and> filter training_event (fst (test_mlp ext timer cfg)) = []
      \<and> (batch_size cfg \<noteq> 0 \<longrightarrow> test_mlp ext timer cfg =
           ([LoadData, Print ''... building the model'', SeedRng (rand_seed cfg), BuildMLP,
             Print ''Cannot use covariance and correlation penalties simulataneously. Terminating program...''],
            Inl (SystemExit 1))))
   \<and> (\<not> (cov_reg cfg \<noteq> Fin 0 \<and> cor_reg cfg \<noteq> Fin 0) \<longrightarrow>
      (\<forall>k. snd (test_mlp ext timer cfg) \<noteq> Inl (SystemExit k))
      \<and> ((cov_reg cfg = Fin 0 \<and> cor_reg cfg = Fin 0
            \<and> select_cost ar cfg c = ([], Inr (c, base_cost ar cfg c)))
         \<or> (cov_reg cfg \<noteq> Fin 0 \<and> cor_reg cfg = Fin 0
            \<and> (\<exists>p. off_diag_cov_sqr (set_covariance ar c) = Some p
                 \<and> select_cost ar cfg c = ([SetCovariance], Inr (set_covariance ar c,
                      \<lambda>e. fl_add ar (base_cost ar cfg c e) (fl_mul ar (cov_reg cfg) (p e))))))
         \<or> (cov_reg cfg = Fin 0 \<and> cor_reg cfg \<noteq> Fin 0
            \<and> (\<exists>p. off_diag_cor_sqr (set_correlation ar c) = Some p
                 \<and> select_cost ar cfg c = ([SetCorrelation], Inr (set_correlation ar c,
                      \<lambda>e. fl_add ar (base_cost ar cfg c e) (fl_mul ar (cor_reg cfg) (p e))))))))"
proof -
  have exit: "(\<exists>err. snd (test_mlp ext timer cfg) = Inl err \<and> exit_status err \<noteq> 0)
      \<and> filter training_event (fst (test_mlp ext timer cfg)) = []
      \<and> (batch_size cfg \<noteq> 0 \<longrightarrow> test_mlp ext timer cfg =
           ([LoadData, Print ''... building the model'', SeedRng (rand_seed cfg), BuildMLP,
             Print ''Cannot use covariance and correlation penalties simulataneously. Terminating program...''],
            Inl (SystemExit 1)))"
    if both: "cov_reg cfg \<noteq> Fin 0 \<and> cor_reg cfg \<noteq> Fin 0"
  proof (cases "batch_size cfg = 0")
    case True
    then show ?thesis by (simp add: test_mlp_zero_batch)
  next
    case False
    with both have "test_mlp ext timer cfg =
           ([LoadData, Print ''... building the model'', SeedRng (rand_seed cfg), BuildMLP,
             Print ''Cannot use covariance and correlation penalties simulataneously. Terminating program...''],
            Inl (SystemExit 1))"
      by (simp add: test_mlp_exit)
    then show ?thesis by simp
  qed
  show ?thesis
    using exit select_cost_valid [where cfg = cfg and c = c and ar = ar] test_mlp_not_exit [of cfg ext timer]
    by blast
qed

theorem exclusive_penalties_witness:
  "test_mlp toy_externals (\<lambda>k. 0) (main_config\<lparr>cov_reg := Fin 1\<rparr>) =
     ([LoadData, Print ''... building the model'', SeedRng 1234, BuildMLP,
       Print ''Cannot use covariance and correlation penalties simulataneously. Terminating program...''],
      Inl (SystemExit 1))
   \<and> snd (test_mlp toy_externals (\<lambda>k. 0) main_config) \<noteq> Inl (SystemExit 1)"
  using exclusive_penalties [of "main_config\<lparr>cov_reg := Fin 1\<rparr>" toy_externals "\<lambda>k. 0" exact
      "MLP_init (\<lambda>X. X) (\<lambda>X. Fin 0) (\<lambda>X. Fin 0) (\<lambda>X. Fin 0) (\<lambda>X::mat. Fin 0)"]
    exclusive_penalties [of main_config toy_externals "\<lambda>k. 0" exact
      "MLP_init (\<lambda>X. X) (\<lambda>X. Fin 0) (\<lambda>X. Fin 0) (\<lambda>X. Fin 0) (\<lambda>X::mat. Fin 0)"]
  by (simp add: main_config_def)

lemma draws_test_mlp:
  assumes contract: "\<forall>r n. distinct (fst (permutation ext r n))
                       \<and> set (fst (permutation ext r n)) = {..<n}"
  shows "(\<forall>(e, p) \<in> set (draws (fst (test_mlp ext timer cfg))).
            length p = shape0 ext (fst (load_data ext (dataset cfg))) \<and> distinct p
            \<and> set p = {..<shape0 ext (fst (load_data ext (dataset cfg)))})
       \<and> (\<forall>s. snd (test_mlp ext timer cfg) = Inr s \<longrightarrow>
            map fst (draws (fst (test_mlp ext timer cfg)))
              = map (\<lambda>k. 1 + int k) [0..<nat (n_epochs cfg)])"
proof (cases "batch_size cfg \<noteq> 0 \<and> \<not> (cov_reg cfg \<noteq> Fin 0 \<and> cor_reg cfg \<noteq> Fin 0)")
  case False
  then consider "batch_size cfg = 0"
    | "batch_size cfg \<noteq> 0" "cov_reg cfg \<noteq> Fin 0" "cor_reg cfg \<noteq> Fin 0"
    by blast
  then show ?thesis
  proof cases
    case 1
    then show ?thesis by (simp add: test_mlp_zero_batch)
  next
    case 2
    then show ?thesis by (simp add: test_mlp_exit)
  qed
next
  case True
  let ?N = "shape0 ext (fst (load_data ext (dataset cfg)))"
  from True have bs: "batch_size cfg \<noteq> 0"
    and ok: "\<not> (cov_reg cfg \<noteq> Fin 0 \<and> cor_reg cfg \<noteq> Fin 0)" by simp_all
  from test_mlp_loop [OF bs ok, of ext timer] obtain L s0 evs where
    L: "max_epochs L = n_epochs cfg" "n_train L = ?N" "rng_permutation L = permutation ext"
    and s0: "epoch s0 = 0"
      "trace s0 = [LoadData, Print ''... building the model'', SeedRng (rand_seed cfg), BuildMLP]
           @ evs @ [Compile ''validate_model'', Compile ''train_model'',
                    Print ''... training'', ReadTimer]"
      "draws evs = []"
    and run: "snd (test_mlp ext timer cfg) = Inr (while_epochs L s0)"
      "fst (test_mlp ext timer cfg) = trace (while_epochs L s0) @ [ReadTimer,
           PrintSummary (fl_mul (floatX ext) (best_validation_loss (while_epochs L s0)) (Fin 100))
             (best_epoch (while_epochs L s0))
             (best_epoch (while_epochs L s0) * n_train_batches L),
           PrintDuration ((timer 1 - timer 0) / 60)]"
    by blast
  have d0: "draws (trace s0) = []" by (simp add: s0)
  have d: "draws (fst (test_mlp ext timer cfg)) = draws (trace (while_epochs L s0))"
    by (simp add: run(2))
  have perm: "\<forall>r. length (fst (rng_permutation L r (n_train L))) = ?N
       \<and> distinct (fst (rng_permutation L r (n_train L)))
       \<and> set (fst (rng_permutation L r (n_train L))) = {..<?N}"
  proof
    fix r
    from contract have dist: "distinct (fst (permutation ext r ?N))"
      and st: "set (fst (permutation ext r ?N)) = {..<?N}" by simp_all
    from distinct_card [OF dist] st have "length (fst (permutation ext r ?N)) = ?N" by simp
    with dist st show "length (fst (rng_permutation L r (n_train L))) = ?N
       \<and> distinct (fst (rng_permutation L r (n_train L)))
       \<and> set (fst (rng_permutation L r (n_train L))) = {..<?N}"
      by (simp add: L)
  qed
  have a: "\<forall>(e, p) \<in> set (draws (trace (while_epochs L s0))).
             length p = ?N \<and> distinct p \<and> set p = {..<?N}"
    by (rule draws_while [OF perm]) (simp add: d0)
  have b: "map fst (draws (trace (while_epochs L s0))) = map (\<lambda>k. 1 + int k) [0..<nat (n_epochs cfg)]"
    using epochs_while [of L s0] by (simp add: d0 s0(1) L(1))
  from a b show ?thesis by (simp add: d)
qed

text \<open>
  Claim C7. NumPy's \<^verbatim>\<open>permutation\<close> is not part of the repository; provided it returns
  a sequence without repetition of the indices below its argument, every permutation
  \<^verbatim>\<open>test_mlp\<close> draws is such a sequence of the indices of the whole training set, of
  the training set's length; a run that ends normally has drawn one at the start of
  each of the epochs \<open>1, \<dots>, n_epochs\<close>, each from the generator the previous draw left.
\<close>

theorem epoch_permutation:
  assumes contract: "\<forall>r n. distinct (fst (permutation ext r n))
                       \<and> set (fst (permutation ext r n)) = {..<n}"
  shows "(\<forall>(e, p) \<in> set (draws (fst (test_mlp ext timer cfg))).
            length p = shape0 ext (fst (load_data ext (dataset cfg))) \<and> distinct p
            \<and> set p = {..<shape0 ext (fst (load_data ext (dataset cfg)))})
       \<and> (\<forall>s. snd (test_mlp ext timer cfg) = Inr s \<longrightarrow>
            map fst (draws (fst (test_mlp ext timer cfg)))
              = map (\<lambda>k. 1 + int k) [0..<nat (n_epochs cfg)])
       \<and> draws (trace (epoch_body L s'))
            = draws (trace s') @ [(epoch s' + 1, fst (rng_permutation L (rng s') (n_train L)))]
       \<and> rng (epoch_body L s') = snd (rng_permutation L (rng s') (n_train L))"
  using draws_test_mlp [OF contract, of timer cfg] draws_epoch_body [of L s']
  by (simp add: epoch_body_def Let_def)

theorem epoch_permutation_witness:
  "map fst (draws (fst (test_mlp toy_externals (\<lambda>k. 0) main_config)))
     = map (\<lambda>k. 1 + int k) [0..<nat (n_epochs main_config)]"
proof -
  have contract: "\<forall>r n. distinct (fst (permutation toy_externals r n))
                       \<and> set (fst (permutation toy_externals r n)) = {..<n}"
    by (auto simp: toy_externals_def)
  have "\<exists>s. snd (test_mlp toy_externals (\<lambda>k. 0) main_config) = Inr s"
    using test_mlp_completes [of main_config toy_externals "\<lambda>k. 0"]
    by (auto simp: main_config_def)
  with epoch_permutation [OF contract, of "\<lambda>k. 0" main_config] show ?thesis by blast
qed

section \<open>Minibatches\<close>

lemma py_slice_nat:
  "py_slice xs (int lo) (int hi)
     = take (min hi (length xs) - min lo (length xs)) (drop (min lo (length xs)) xs)"
proof -
  have a: "min (int lo) (int (length xs)) = int (min lo (length xs))"
    and b: "min (int hi) (int (length xs)) = int (min hi (length xs))"
    by simp_all
  have c: "nat (int (min hi (length xs)) - int (min lo (length xs)))
             = min hi (length xs) - min lo (length xs)"
    by (simp only: nat_diff_distrib' of_nat_0_le_iff nat_int)
  have n: "\<not> int lo < 0" "\<not> int hi < 0" by simp_all
  show ?thesis
    unfolding py_slice_def Let_def
    by (simp only: n if_False a b c nat_int)
qed

lemma py_slice_block:
  "py_slice xs (int i * int b) ((int i + 1) * int b) = take b (drop (i * b) xs)"
proof -
  let ?n = "length xs"
  have hi: "(int i + 1) * int b = int (i * b + b)" by (simp add: algebra_simps)
  have lo: "int i * int b = int (i * b)" by simp
  have "py_slice xs (int i * int b) ((int i + 1) * int b)
      = take (min (i * b + b) ?n - min (i * b) ?n) (drop (min (i * b) ?n) xs)"
    by (simp only: hi lo py_slice_nat)
  also have "\<dots> = take b (drop (i * b) xs)"
  proof (cases "i * b \<le> ?n")
    case True
    then show ?thesis by (cases "i * b + b \<le> ?n") (simp_all add: min_def)
  next
    case False
    then show ?thesis by (simp add: min_def)
  qed
  finally show ?thesis .
qed

lemma concat_blocks: "concat (blocks b k xs) = take (k * b) xs"
proof (induction k)
  case 0
  then show ?case by (simp add: blocks_def)
next
  case (Suc k)
  then have "concat (blocks b (Suc k) xs) = take (k * b) xs @ take b (drop (k * b) xs)"
    by (simp add: blocks_def)
  also have "\<dots> = take (k * b + b) xs" by (simp add: take_add)
  also have "k * b + b = Suc k * b" by simp
  finally show ?case .
qed

lemma slices_blocks:
  "map (\<lambda>i. py_slice xs (i * int b) ((i + 1) * int b)) (xrange (int k)) = blocks b k xs"
  by (simp add: xrange_def blocks_def comp_def py_slice_block)

lemma run_minibatches_descent:
  "run_minibatches (\<lambda>i. f (g i)) js p = descent f (map g js) p"
  by (induction js arbitrary: p) simp_all

lemma train_blocks:
  assumes "0 < bs"
  shows "map (\<lambda>i. snd (train_givens train_set bs i perm)) (xrange (int k))
           = blocks (nat bs) k perm"
proof -
  have "int (nat bs) = bs" using assms by simp
  with slices_blocks [of perm "nat bs" k] show ?thesis
    by (simp add: train_givens_def)
qed

lemma valid_blocks:
  assumes "0 < bs"
  shows "map (\<lambda>i. snd (valid_givens valid_set m bs i)) (xrange (int k))
           = blocks (nat bs) k [0..<m]"
proof -
  have "int (nat bs) = bs" using assms by simp
  with slices_blocks [of "[0..<m]" "nat bs" k] show ?thesis
    by (simp add: valid_givens_def)
qed

lemma epoch_body_steps:
  "trajectory (epoch_body L s) = trajectory s
     @ run_minibatches (\<lambda>i. train_model L i (fst (rng_permutation L (rng s) (n_train L))))
         (xrange (n_train_batches L)) (params s)"
  "params (epoch_body L s) = last (params s
     # run_minibatches (\<lambda>i. train_model L i (fst (rng_permutation L (rng s) (n_train L))))
         (xrange (n_train_batches L)) (params s))"
  by (simp_all add: epoch_body_def Let_def)

lemma compiled_steps:
  assumes bs: "0 < batch_size cfg"
    and L: "L = compile_loop ext cfg train_set valid_set (int k) nvb c cost"
  shows "run_minibatches (\<lambda>i. train_model L i perm) (xrange (n_train_batches L)) p
     = descent (\<lambda>rows p. sgd_step (floatX ext) (learning_rate cfg) (grad ext) cost
                   (p, train_set, rows))
         (blocks (nat (batch_size cfg)) k perm) p"
proof -
  let ?f = "\<lambda>rows p. sgd_step (floatX ext) (learning_rate cfg) (grad ext) cost
                   (p, train_set, rows)"
  let ?g = "\<lambda>i. snd (train_givens train_set (batch_size cfg) i perm)"
  have "train_model L i perm = ?f (?g i)" for i
    by (simp add: L compile_loop_def train_givens_def)
  then have "run_minibatches (\<lambda>i. train_model L i perm) (xrange (n_train_batches L)) p
      = run_minibatches (\<lambda>i. ?f (?g i)) (xrange (int k)) p"
    by (simp add: L compile_loop_def)
  also have "\<dots> = descent ?f (map ?g (xrange (int k))) p"
    by (rule run_minibatches_descent)
  finally show ?thesis by (simp only: train_blocks [OF bs])
qed

lemma compiled_validation:
  assumes bs: "0 < batch_size cfg"
    and L: "L = compile_loop ext cfg train_set valid_set ntb (int k) c cost"
  shows "this_validation_loss L p
     = np_mean (floatX ext) (map (\<lambda>rows. errors c (p, valid_set, rows))
         (blocks (nat (batch_size cfg)) k [0..<shape0 ext valid_set]))"
proof -
  let ?g = "\<lambda>i. snd (valid_givens valid_set (shape0 ext valid_set) (batch_size cfg) i)"
  have "validate_model L i p = errors c (p, valid_set, ?g i)" for i
    by (simp add: L compile_loop_def valid_givens_def)
  then have "this_validation_loss L p
      = np_mean (floatX ext) (map (\<lambda>rows. errors c (p, valid_set, rows))
          (map ?g (xrange (int k))))"
    by (simp add: this_validation_loss_def L compile_loop_def comp_def)
  then show ?thesis by (simp only: valid_blocks [OF bs])
qed

lemma test_mlp_result:
  assumes bs: "batch_size cfg \<noteq> 0"
    and sel: "select_cost (floatX ext) cfg (MLP_init (layer_output ext) (layer_L1 ext)
                  (layer_L2_sqr ext) (layer_nll ext) (layer_errors ext)) = (evs, Inr (c, cost))"
  shows "snd (test_mlp ext timer cfg) = Inr (while_epochs
           (compile_loop ext cfg (fst (load_data ext (dataset cfg)))
              (snd (load_data ext (dataset cfg)))
              (int (shape0 ext (fst (load_data ext (dataset cfg)))) div batch_size cfg)
              (int (shape0 ext (snd (load_data ext (dataset cfg)))) div batch_size cfg) c cost)
           (initial_state
              (layers ext (RandomState ext (rand_seed cfg)) (28 * 28) (n_hidden cfg) 10)
              ([LoadData, Print ''... building the model'', SeedRng (rand_seed cfg), BuildMLP]
                 @ evs)))"
  using bs sel by (simp add: test_mlp_def py_div_def Let_def)

text \<open>
  Claim C8. For a positive batch size \<^verbatim>\<open>test_mlp\<close> runs its loop with the truncated
  quotients of the two partition sizes by the batch size as batch counts. In every
  epoch the parameters are updated on the first \<open>count\<close> consecutive blocks of
  \<open>batch_size\<close> entries of the permutation, in order, and on nothing else, and the
  validation error is the mean of the errors on the first blocks of rows of the
  validation set. The entries left over, the remainder of the division and so at most
  \<open>batch_size - 1\<close> of them, are in no block: they enter no update and no average.
\<close>

theorem batch_counts_truncate:
  assumes bs: "0 < batch_size cfg"
    and sel: "select_cost (floatX ext) cfg (MLP_init (layer_output ext) (layer_L1 ext)
                  (layer_L2_sqr ext) (layer_nll ext) (layer_errors ext)) = (evs, Inr (c, cost))"
    and data: "load_data ext (dataset cfg) = (train_set, valid_set)"
    and N: "N = shape0 ext train_set" and M: "M = shape0 ext valid_set"
    and b: "b = nat (batch_size cfg)"
    and L: "L = compile_loop ext cfg train_set valid_set (int (N div b)) (int (M div b)) c cost"
    and perm: "perm = fst (permutation ext (rng s) N)"
  shows "snd (test_mlp ext timer cfg) = Inr (while_epochs L
           (initial_state
              (layers ext (RandomState ext (rand_seed cfg)) (28 * 28) (n_hidden cfg) 10)
              ([LoadData, Print ''... building the model'', SeedRng (rand_seed cfg), BuildMLP]
                 @ evs)))
       \<and> trajectory (epoch_body L s) = trajectory s
           @ descent (\<lambda>rows p. sgd_step (floatX ext) (learning_rate cfg) (grad ext) cost
                        (p, train_set, rows))
               (blocks b (N div b) perm) (params s)
       \<and> params (epoch_body L s) = last (params s
           # descent (\<lambda>rows p. sgd_step (floatX ext) (learning_rate cfg) (grad ext) cost
                        (p, train_set, rows))
               (blocks b (N div b) perm) (params s))
       \<and> this_validation_loss L p
           = np_mean (floatX ext) (map (\<lambda>rows. errors c (p, valid_set, rows))
               (blocks b (M div b) [0..<M]))
       \<and> concat (blocks b (N div b) perm) = take (N div b * b) perm
       \<and> concat (blocks b (M div b) [0..<M]) = [0..<M div b * b]
       \<and> (length perm = N \<longrightarrow> length (drop (N div b * b) perm) = N mod b)
       \<and> (distinct perm \<longrightarrow>
             set (drop (N div b * b) perm) \<inter> set (concat (blocks b (N div b) perm)) = {})
       \<and> length (drop (M div b * b) [0..<M]) = M mod b
       \<and> N mod b \<le> b - 1 \<and> M mod b \<le> b - 1"
proof -
  have b0: "int b = batch_size cfg" "0 < b" using bs b by simp_all
  have bs': "batch_size cfg \<noteq> 0" using bs by simp
  have d: "int k div batch_size cfg = int (k div b)" for k
    using b0 by (metis zdiv_int)
  have run: "snd (test_mlp ext timer cfg) = Inr (while_epochs L
           (initial_state
              (layers ext (RandomState ext (rand_seed cfg)) (28 * 28) (n_hidden cfg) 10)
              ([LoadData, Print ''... building the model'', SeedRng (rand_seed cfg), BuildMLP]
                 @ evs)))"
    using test_mlp_result [OF bs' sel, of timer] by (simp add: data N M L d)
  have nt: "n_train L = N" "rng_permutation L = permutation ext"
    by (simp_all add: L compile_loop_def N)
  have steps: "run_minibatches (\<lambda>i. train_model L i perm) (xrange (n_train_batches L)) q
     = descent (\<lambda>rows p. sgd_step (floatX ext) (learning_rate cfg) (grad ext) cost
                   (p, train_set, rows))
         (blocks b (N div b) perm) q" for q
    using compiled_steps [OF bs L] by (simp add: b)
  have traj: "trajectory (epoch_body L s) = trajectory s
           @ descent (\<lambda>rows p. sgd_step (floatX ext) (learning_rate cfg) (grad ext) cost
                        (p, train_set, rows))
               (blocks b (N div b) perm) (params s)"
    by (simp add: epoch_body_steps nt perm [symmetric] steps)
  have par: "params (epoch_body L s) = last (params s
           # descent (\<lambda>rows p. sgd_step (floatX ext) (learning_rate cfg) (grad ext) cost
                        (p, train_set, rows))
               (blocks b (N div b) perm) (params s))"
    by (simp only: epoch_body_steps nt perm [symmetric] steps)
  have val: "this_validation_loss L p
           = np_mean (floatX ext) (map (\<lambda>rows. errors c (p, valid_set, rows))
               (blocks b (M div b) [0..<M]))"
    using compiled_validation [OF bs L] by (simp add: b M)
  have c2: "concat (blocks b (M div b) [0..<M]) = [0..<M div b * b]"
    by (simp add: concat_blocks take_upt)
  have r: "k - k div b * b = k mod b" for k
    by (simp add: minus_div_mult_eq_mod)
  have dis: "set (drop (N div b * b) perm) \<inter> set (concat (blocks b (N div b) perm)) = {}"
    if "distinct perm"
    using that set_take_disj_set_drop_if_distinct [of perm "N div b * b" "N div b * b"]
    by (simp add: concat_blocks Int_commute)
  have le: "k mod b \<le> b - 1" for k
    using b0(2) by (metis Suc_pred' less_Suc_eq_le mod_less_divisor)
  show ?thesis
    using run traj par val c2 dis le by (simp add: concat_blocks r)
qed

theorem batch_counts_truncate_witness:
  "n_train_batches (compile_loop toy_externals (main_config\<lparr>cor_reg := Fin 0, batch_size := 2\<rparr>)
       3 2 (int (3 div 2)) (int (2 div 2))
       (MLP_init (layer_output toy_externals) (layer_L1 toy_externals) (layer_L2_sqr toy_externals)
          (layer_nll toy_externals) (layer_errors toy_externals))
       (base_cost float64 (main_config\<lparr>cor_reg := Fin 0, batch_size := 2\<rparr>)
          (MLP_init (layer_output toy_externals) (layer_L1 toy_externals) (layer_L2_sqr toy_externals)
          (layer_nll toy_externals) (layer_errors toy_externals)))) = 1
   \<and> concat (blocks 2 (3 div 2) [2, 1, 0::nat]) = [2, 1]
   \<and> length (drop (3 div 2 * 2) [2, 1, 0::nat]) = 3 mod 2"
proof -
  let ?cfg = "main_config\<lparr>cor_reg := Fin 0, batch_size := 2\<rparr>"
  let ?c = "MLP_init (layer_output toy_externals) (layer_L1 toy_externals)
          (layer_L2_sqr toy_externals) (layer_nll toy_externals) (layer_errors toy_externals)"
  let ?L = "compile_loop toy_externals ?cfg 3 2 (int (3 div 2)) (int (2 div 2)) ?c
              (base_cost float64 ?cfg ?c)"
  let ?s = "initial_state ([], 0::nat) []"
  have bs: "0 < batch_size ?cfg" by simp
  have sel: "select_cost (floatX toy_externals) ?cfg ?c = ([], Inr (?c, base_cost float64 ?cfg ?c))"
    by (simp add: select_cost_def main_config_def toy_externals_def)
  have data: "load_data toy_externals (dataset ?cfg) = (3, 2)"
    by (simp add: toy_externals_def)
  have N: "(3::nat) = shape0 toy_externals 3" and M: "(2::nat) = shape0 toy_externals 2"
    by (simp_all add: toy_externals_def)
  have b: "(2::nat) = nat (batch_size ?cfg)" by simp
  have perm: "[2, 1, 0] = fst (permutation toy_externals (rng ?s) 3)"
    by (simp add: toy_externals_def upt_rec)
  from batch_counts_truncate [OF bs sel data N M b refl perm]
  show ?thesis by (simp add: compile_loop_def)
qed

section \<open>Tensor operations without rounding\<close>

lemma fl_sum_Fin: "fl_sum exact (map (\<lambda>i. Fin (f i)) xs) = Fin (sum_list (map f xs))"
  by (induction xs) simp_all

lemma fl_sum_upt: "fl_sum exact (map (\<lambda>i. Fin (f i)) [0..<n]) = Fin (\<Sum>i<n. f i)"
  by (simp add: fl_sum_Fin interv_sum_list_conv_sum_set_nat atLeast0LessThan)


lemma mean0_real: "0 < n \<Longrightarrow> mean0 exact (real_mat n h f) = real_vec h (column_mean f n)"
  by (simp add: mean0_def sum0_def real_mat_def real_vec_def fl_sum_upt fl_of_int_def
      column_mean_def)

lemma sub_rows_real:
  "sub_rows exact (real_mat n h f) (real_vec h m) = real_mat n h (\<lambda>i j. f i j - m j)"
  by (simp add: sub_rows_def real_mat_def real_vec_def fl_sub_def)

lemma gram_real:
  "dot exact (transpose_mat (real_mat n h g)) (real_mat n h g)
     = real_mat h h (\<lambda>j k. \<Sum>i<n. g i j * g i k)"
  by (simp add: dot_def transpose_mat_def real_mat_def fl_sum_upt)

lemma scalar_times_mat_real:
  "scalar_times_mat exact (Fin c) (real_mat a b g) = real_mat a b (\<lambda>i j. c * g i j)"
  by (simp add: scalar_times_mat_def real_mat_def)

lemma sqr_mat_real: "sqr_mat exact (real_mat a b g) = real_mat a b (\<lambda>i j. g i j * g i j)"
  by (simp add: sqr_mat_def real_mat_def)

lemma sum_all_real: "sum_all exact (real_mat a b g) = Fin (\<Sum>i<a. \<Sum>j<b. g i j)"
  by (simp add: sum_all_def real_mat_def fl_sum_upt)

lemma sum_diagonal_real: "sum_vec exact (diagonal (real_mat a a g)) = Fin (\<Sum>j<a. g j j)"
  by (simp add: sum_vec_def diagonal_def real_mat_def fl_sum_upt)

lemma inv_batch: "2 \<le> n \<Longrightarrow> fl_div exact (Fin 1) (fl_of_int exact (int n - 1)) = Fin (1 / (real n - 1))"
  by (simp add: fl_of_int_def)

lemma off_diagonal_sum:
  fixes a :: "nat \<Rightarrow> nat \<Rightarrow> real"
  shows "(\<Sum>j<h. \<Sum>k<h. if j = k then 0 else a j k)
           = (\<Sum>j<h. \<Sum>k<h. a j k) - (\<Sum>j<h. a j j)"
proof -
  have "(\<Sum>k<h. if j = k then 0 else a j k) = (\<Sum>k<h. a j k) - a j j" if "j < h" for j
  proof -
    have "(\<Sum>k<h. a j k)
            = (\<Sum>k<h. (if j = k then 0 else a j k) + (if j = k then a j k else 0))"
      by (rule sum.cong) auto
    also have "\<dots> = (\<Sum>k<h. if j = k then 0 else a j k)
                       + (\<Sum>k<h. if j = k then a j k else 0)"
      by (simp add: sum.distrib)
    also have "(\<Sum>k<h. if j = k then a j k else 0) = a j j"
      using that by simp
    finally show ?thesis by simp
  qed
  then have "(\<Sum>j<h. \<Sum>k<h. if j = k then 0 else a j k)
               = (\<Sum>j<h. (\<Sum>k<h. a j k) - a j j)"
    by simp
  then show ?thesis by (simp add: sum_subtractf)
qed

section \<open>The covariance penalty\<close>

text \<open>
  Claim C3, as the code has it. In arithmetic that does not round, for a batch of
  \<open>n > 1\<close> rows the matrix that \<^verbatim>\<open>set_covariance\<close> stores in \<^verbatim>\<open>activation_covariance\<close>
  is the sample covariance matrix (the Gram matrix of the mean-centred batch over
  \<open>n - 1\<close>), and \<^verbatim>\<open>off_diag_cov_sqr\<close>, computed as the sum of all squared entries minus
  the sum of the squared diagonal, is the sum of the squared off-diagonal covariances.
\<close>

theorem covariance_penalty:
  assumes "2 \<le> n" and "hiddenLayer_output self e = real_mat n h f"
  shows "map_option (\<lambda>c. el (c e)) (activation_covariance (set_covariance exact self))
           = Some (\<lambda>j k. Fin (sample_covariance f n j k))
       \<and> map_option (\<lambda>p. p e) (off_diag_cov_sqr (set_covariance exact self))
           = Some (Fin (\<Sum>j<h. \<Sum>k<h. if j = k then 0 else (sample_covariance f n j k)\<^sup>2))"
  using assms
  apply (simp add: set_covariance_def Let_def mean0_real sub_rows_real gram_real inv_batch
      scalar_times_mat_real sqr_mat_real sum_all_real sum_diagonal_real off_diagonal_sum
      fl_sub_def)
  apply (simp add: real_mat_def sample_covariance_def power2_eq_square)
  done

theorem covariance_penalty_witness:
  "map_option (\<lambda>p. p (real_mat 2 2 (\<lambda>i j. real (i * (j + 1)))))
     (off_diag_cov_sqr (set_covariance exact
        (MLP_init (\<lambda>X. X) (\<lambda>X. Fin 0) (\<lambda>X. Fin 0) (\<lambda>X. Fin 0) (\<lambda>X. Fin 0))))
     = Some (Fin 2)"
  using covariance_penalty [of 2
      "MLP_init (\<lambda>X. X) (\<lambda>X. Fin 0) (\<lambda>X. Fin 0) (\<lambda>X. Fin 0) (\<lambda>X. Fin 0)"
      "real_mat 2 2 (\<lambda>i j. real (i * (j + 1)))" 2 "\<lambda>i j. real (i * (j + 1))"]
  by (simp add: MLP_init_def sample_covariance_def column_mean_def eval_nat_numeral)

text \<open>The roundings of binary64 on the batch with the rows \<open>(1, 2 ^ -30)\<close> and
  \<open>(-1, 0)\<close>.\<close>

lemma covariance_example_roundings:
  "binary64 (- 1) = Fin (- 1)"
  "binary64 (2) = Fin (2)"
  "binary64 (1 / 1073741824) = Fin (1 / 1073741824)"
  "binary64 (1 / 2147483648) = Fin (1 / 2147483648)"
  "binary64 (1) = Fin (1)"
  "binary64 (- (1 / 2147483648)) = Fin (- (1 / 2147483648))"
  "binary64 (1 / 4611686018427387904) = Fin (1 / 4611686018427387904)"
  "binary64 (1 / 2305843009213693952) = Fin (1 / 2305843009213693952)"
  "binary64 (4) = Fin (4)"
  "binary64 (1 / 1152921504606846976) = Fin (1 / 1152921504606846976)"
  "binary64 (1 / 5316911983139663491615228241121378304) = Fin (1 / 5316911983139663491615228241121378304)"
  "binary64 (4611686018427387905 / 1152921504606846976) = Fin (4)"
  "binary64 (4611686018427387905 / 5316911983139663491615228241121378304) = Fin (1 / 1152921504606846976)"
  "binary64 (21267647932558653966460912964485513217 / 5316911983139663491615228241121378304) = Fin (4)"
proof -
  show "binary64 (- 1) = Fin (- 1)"
    using binary64_eval [of "- 1" 52] by (simp add: round_even_def Let_def)
  show "binary64 (2) = Fin (2)"
    using binary64_eval [of "2" 51] by (simp add: round_even_def Let_def)
  show "binary64 (1 / 1073741824) = Fin (1 / 1073741824)"
    using binary64_eval [of "1 / 1073741824" 82] by (simp add: round_even_def Let_def)
  show "binary64 (1 / 2147483648) = Fin (1 / 2147483648)"
    using binary64_eval [of "1 / 2147483648" 83] by (simp add: round_even_def Let_def)
  show "binary64 (1) = Fin (1)"
    using binary64_eval [of "1" 52] by (simp add: round_even_def Let_def)
  show "binary64 (- (1 / 2147483648)) = Fin (- (1 / 2147483648))"
    using binary64_eval [of "- (1 / 2147483648)" 83] by (simp add: round_even_def Let_def)
  show "binary64 (1 / 4611686018427387904) = Fin (1 / 4611686018427387904)"
    using binary64_eval [of "1 / 4611686018427387904" 114] by (simp add: round_even_def Let_def)
  show "binary64 (1 / 2305843009213693952) = Fin (1 / 2305843009213693952)"
    using binary64_eval [of "1 / 2305843009213693952" 113] by (simp add: round_even_def Let_def)
  show "binary64 (4) = Fin (4)"
    using binary64_eval [of "4" 50] by (simp add: round_even_def Let_def)
  show "binary64 (1 / 1152921504606846976) = Fin (1 / 1152921504606846976)"
    using binary64_eval [of "1 / 1152921504606846976" 112] by (simp add: round_even_def Let_def)
  show "binary64 (1 / 5316911983139663491615228241121378304) = Fin (1 / 5316911983139663491615228241121378304)"
    using binary64_eval [of "1 / 5316911983139663491615228241121378304" 174] by (simp add: round_even_def Let_def)
  show "binary64 (4611686018427387905 / 1152921504606846976) = Fin (4)"
    using binary64_eval [of "4611686018427387905 / 1152921504606846976" 50] by (simp add: round_even_def Let_def)
  show "binary64 (4611686018427387905 / 5316911983139663491615228241121378304) = Fin (1 / 1152921504606846976)"
    using binary64_eval [of "4611686018427387905 / 5316911983139663491615228241121378304" 112] by (simp add: round_even_def Let_def)
  show "binary64 (21267647932558653966460912964485513217 / 5316911983139663491615228241121378304) = Fin (4)"
    using binary64_eval [of "21267647932558653966460912964485513217 / 5316911983139663491615228241121378304" 50] by (simp add: round_even_def Let_def)
qed

text \<open>The claim as stated fails in binary64, the arithmetic of Theano's default
  \<^verbatim>\<open>floatX\<close>: on that batch the squared covariances are \<open>4\<close>, \<open>2 ^ -60\<close> twice and
  \<open>2 ^ -122\<close>; the sum of all of them and the sum of the diagonal both round to \<open>4\<close>,
  so \<^verbatim>\<open>off_diag_cov_sqr\<close> is \<open>0\<close>, where the squared off-diagonal covariances sum to
  \<open>2 ^ -59\<close>.\<close>

theorem covariance_penalty_counterexample:
  "map_option (\<lambda>p. p (real_mat 2 2 (\<lambda>i j. [[1, 1 / 2 ^ 30], [- 1, 0]] ! i ! j)))
     (off_diag_cov_sqr (set_covariance float64
        (MLP_init (\<lambda>X. X) (\<lambda>X. Fin 0) (\<lambda>X. Fin 0) (\<lambda>X. Fin 0) (\<lambda>X. Fin 0))))
     = Some (Fin 0)
   \<and> (\<Sum>j<2. \<Sum>k<2. if j = k then 0
         else (sample_covariance (\<lambda>i j. [[1, 1 / 2 ^ 30], [- 1, 0]] ! i ! j) 2 j k)\<^sup>2)
     = 1 / 2 ^ 59"
proof -
  have "map_option (\<lambda>p. p (real_mat 2 2 (\<lambda>i j. [[1, 1 / 2 ^ 30], [- 1, 0]] ! i ! j)))
     (off_diag_cov_sqr (set_covariance float64
        (MLP_init (\<lambda>X. X) (\<lambda>X. Fin 0) (\<lambda>X. Fin 0) (\<lambda>X. Fin 0) (\<lambda>X. Fin 0))))
     = Some (Fin 0)"
    by (simp add: set_covariance_def Let_def MLP_init_def sum_all_def sum_vec_def fl_sub_def
        fl_of_int_def eval_nat_numeral more_entry_simps covariance_example_roundings)
  moreover have "(\<Sum>j<2. \<Sum>k<2. if j = k then 0
         else (sample_covariance (\<lambda>i j. [[1, 1 / 2 ^ 30], [- 1, 0]] ! i ! j) 2 j k)\<^sup>2)
     = 1 / 2 ^ 59"
    by (simp add: sample_covariance_def column_mean_def eval_nat_numeral lessThan_Suc
        power2_eq_square)
  ultimately show ?thesis by simp
qed

section \<open>The correlation penalty\<close>













section \<open>A hidden unit of zero variance\<close>

lemma fl_add_NaN_right [simp]: "fl_add ar x NaN = NaN"
  by (cases x) simp_all

lemma fl_mul_NaN_right [simp]: "fl_mul ar x NaN = NaN"
  by (cases x) simp_all

lemma fl_sub_NaN_left [simp]: "fl_sub ar NaN y = NaN"
  by (simp add: fl_sub_def)









lemma sgd_step_length [simp]: "length (sgd_step ar lr G cost e) = length (fst e)"
  by (simp add: sgd_step_def param_updates_def gparams_def)













end
